theory Spec2Isabelle
  imports Main
begin

section \<open>Python values and built-ins used by the registration service\<close>

text \<open>
  A Python string is a sequence of Unicode code points, and the built-ins the handlers
  call (\<^verbatim>\<open>str.strip\<close>, \<^verbatim>\<open>int\<close>) look at code points beyond ASCII. A string is
  therefore the list of its code points; \<open>lit\<close> gives the string of an ASCII literal.
  The bytes of a file are a byte string. Dictionary keys, column names and the fixed
  messages of the responses are ASCII literals of the source and are kept as such.
\<close>

type_synonym str = "nat list"

type_synonym bytes = string

definition lit :: "string \<Rightarrow> str" where
  "lit s = map of_char s"

text \<open>
  The request body is JSON. The handlers only read scalar fields, so a field value is one
  of null, a boolean, an integer or a string (floating-point numbers, arrays and objects
  as field values are outside this model).
\<close>

datatype json = JNull | JBool bool | JInt int | JStr str

datatype py_error = AttributeError | TypeError | ValueError | DataOverflowError
  | FileNotFoundError | DatabaseError | OSError

text \<open>Python truthiness, as used by \<^verbatim>\<open>x or default\<close> and \<^verbatim>\<open>if not x\<close>.\<close>

fun truthy :: "json \<Rightarrow> bool" where
  "truthy JNull = False"
| "truthy (JBool b) = b"
| "truthy (JInt n) = (n \<noteq> 0)"
| "truthy (JStr s) = (s \<noteq> [])"

text \<open>\<^verbatim>\<open>data.get(key) or default\<close> on the request dictionary.\<close>

definition get_or :: "(string \<rightharpoonup> json) \<Rightarrow> string \<Rightarrow> json \<Rightarrow> json" where
  "get_or data key dflt =
     (case data key of
        None \<Rightarrow> dflt
      | Some v \<Rightarrow> if truthy v then v else dflt)"

text \<open>
  \<^verbatim>\<open>str.isspace\<close> of one code point, which is also the set \<^verbatim>\<open>str.strip()\<close> removes:
  tab, line feed, vertical tab, form feed, carriage return (9 to 13), the four
  separators 0x1C to 0x1F, space, and beyond ASCII the next-line control U+0085, the
  no-break space U+00A0, U+1680, the spaces U+2000 to U+200A, the line and paragraph
  separators U+2028 and U+2029, U+202F, U+205F and the ideographic space U+3000.
\<close>

definition py_isspace :: "nat \<Rightarrow> bool" where
  "py_isspace c =
     ((9 \<le> c \<and> c \<le> 13) \<or> (28 \<le> c \<and> c \<le> 32) \<or> c = 0x85 \<or> c = 0xA0 \<or> c = 0x1680
      \<or> (0x2000 \<le> c \<and> c \<le> 0x200A) \<or> c = 0x2028 \<or> c = 0x2029 \<or> c = 0x202F
      \<or> c = 0x205F \<or> c = 0x3000)"

text \<open>\<^verbatim>\<open>s.strip()\<close>: drop leading and trailing whitespace.\<close>

definition strip :: "str \<Rightarrow> str" where
  "strip s = rev (dropWhile py_isspace (rev (dropWhile py_isspace s)))"

text \<open>\<^verbatim>\<open>(data.get(key) or '').strip()\<close>: a truthy value that is not a string has no
  \<^verbatim>\<open>strip\<close> method.\<close>

definition text_field :: "(string \<rightharpoonup> json) \<Rightarrow> string \<Rightarrow> py_error + str" where
  "text_field data key =
     (case get_or data key (JStr []) of
        JStr s \<Rightarrow> Inr (strip s)
      | _ \<Rightarrow> Inl AttributeError)"

subsection \<open>Integer conversion\<close>

text \<open>
  Two things \<^verbatim>\<open>int\<close> depends on belong to the interpreter rather than to the program:
  which code points its Unicode database gives the property of a decimal digit, with
  what value, and the limit on the number of digits of a string it converts (4300
  unless configured otherwise, 0 for no limit).
\<close>

record interpreter =
  unicode_decimal :: "nat \<Rightarrow> nat option"
  int_max_str_digits :: nat

text \<open>
  In the Unicode database the decimal digits come in runs of ten, zero first.
  \<open>decimal_starts\<close> lists the first code point of each run in version 14 of the
  database: the ASCII digits, Arabic-Indic, Devanagari, Bengali and the other scripts up
  to the segmented digits at U+1FBF0; \<open>decimal_14\<close> is the property they define.
\<close>

definition decimal_starts :: "nat list" where
  "decimal_starts =
     [0x30, 0x660, 0x6F0, 0x7C0, 0x966, 0x9E6, 0xA66, 0xAE6, 0xB66, 0xBE6, 0xC66, 0xCE6,
      0xD66, 0xDE6, 0xE50, 0xED0, 0xF20, 0x1040, 0x1090, 0x17E0, 0x1810, 0x1946, 0x19D0,
      0x1A80, 0x1A90, 0x1B50, 0x1BB0, 0x1C40, 0x1C50, 0xA620, 0xA8D0, 0xA900, 0xA9D0,
      0xA9F0, 0xAA50, 0xABF0, 0xFF10, 0x104A0, 0x10D30, 0x11066, 0x110F0, 0x11136,
      0x111D0, 0x112F0, 0x11450, 0x114D0, 0x11650, 0x116C0, 0x11730, 0x118E0, 0x11950,
      0x11C50, 0x11D50, 0x11DA0, 0x16A60, 0x16AC0, 0x16B50, 0x1D7CE, 0x1D7D8, 0x1D7E2,
      0x1D7EC, 0x1D7F6, 0x1E140, 0x1E2F0, 0x1E950, 0x1FBF0]"

definition decimal_14 :: "nat \<Rightarrow> nat option" where
  "decimal_14 c =
     (case find (\<lambda>s. s \<le> c \<and> c < s + 10) decimal_starts of
        None \<Rightarrow> None
      | Some s \<Rightarrow> Some (c - s))"

text \<open>
  Before it parses, \<^verbatim>\<open>int\<close> brings the string to ASCII: a code point below 127 stays,
  a whitespace code point becomes a space, a decimal digit of any script becomes the
  ASCII digit of its value, and anything else becomes a question mark, which no number
  contains.
\<close>

definition to_ascii :: "'a interpreter_scheme \<Rightarrow> nat \<Rightarrow> nat" where
  "to_ascii p c =
     (if c < 127 then c
      else if py_isspace c then 32
      else (case unicode_decimal p c of
              Some d \<Rightarrow> if d < 10 then 48 + d else 63
            | None \<Rightarrow> 63))"

text \<open>The parser then skips the whitespace of the C locale only: 9 to 13 and the space,
  so that a separator 0x1C to 0x1F beside the digits is refused.\<close>

definition c_isspace :: "nat \<Rightarrow> bool" where
  "c_isspace c = ((9 \<le> c \<and> c \<le> 13) \<or> c = 32)"

definition is_digit :: "nat \<Rightarrow> bool" where
  "is_digit c = (48 \<le> c \<and> c \<le> 57)"

definition digit_val :: "nat \<Rightarrow> nat" where
  "digit_val c = c - 48"

text \<open>Digits with single underscores (95) allowed between them, as Python's integer
  literals.\<close>

fun digits_us :: "str \<Rightarrow> bool" where
  "digits_us [] = False"
| "digits_us [c] = is_digit c"
| "digits_us (c # d # r) =
     (is_digit c \<and> (if d = 95 then r \<noteq> [] \<and> digits_us r else digits_us (d # r)))"

definition decimal_value :: "str \<Rightarrow> nat" where
  "decimal_value ds = foldl (\<lambda>acc c. 10 * acc + digit_val c) 0 ds"

text \<open>
  \<^verbatim>\<open>int(s)\<close> for a string: surrounding whitespace is ignored, one sign (45 is the minus,
  43 the plus) is allowed, the rest must be decimal digits, no more of them than the
  interpreter's conversion limit. Anything else raises \<^verbatim>\<open>ValueError\<close>.
\<close>

definition int_of_str :: "'a interpreter_scheme \<Rightarrow> str \<Rightarrow> py_error + int" where
  "int_of_str p s =
     (let a = map (to_ascii p) s;
          t = rev (dropWhile c_isspace (rev (dropWhile c_isspace a)));
          neg = (t \<noteq> [] \<and> hd t = 45);
          body = (if t \<noteq> [] \<and> (hd t = 45 \<or> hd t = 43) then tl t else t);
          ds = filter (\<lambda>c. c \<noteq> 95) body
      in if digits_us body \<and> (int_max_str_digits p = 0 \<or> length ds \<le> int_max_str_digits p)
         then Inr (if neg then - int (decimal_value ds) else int (decimal_value ds))
         else Inl ValueError)"

text \<open>\<^verbatim>\<open>int(v)\<close> for the values a field can hold; \<^verbatim>\<open>int(None)\<close> is a
  \<^verbatim>\<open>TypeError\<close>.\<close>

fun py_int :: "'a interpreter_scheme \<Rightarrow> json \<Rightarrow> py_error + int" where
  "py_int p (JInt n) = Inr n"
| "py_int p (JBool b) = Inr (if b then 1 else 0)"
| "py_int p (JStr s) = int_of_str p s"
| "py_int p JNull = Inl TypeError"

text \<open>\<^verbatim>\<open>str(n)\<close> for an integer.\<close>

definition digit_char :: "nat \<Rightarrow> nat" where
  "digit_char d = 48 + d"

fun str_nat :: "nat \<Rightarrow> str" where
  "str_nat n = (if n < 10 then [digit_char n] else str_nat (n div 10) @ [digit_char (n mod 10)])"

definition str_int :: "int \<Rightarrow> str" where
  "str_int i = (if i < 0 then 45 # str_nat (nat (- i)) else str_nat (nat i))"

text \<open>\<^verbatim>\<open>str(v)\<close>, which is what the CSV writer stores for a value.\<close>

fun py_str :: "json \<Rightarrow> str" where
  "py_str (JStr s) = s"
| "py_str (JInt n) = str_int n"
| "py_str (JBool b) = (if b then lit ''True'' else lit ''False'')"
| "py_str JNull = lit ''None''"

subsection \<open>JSON serialisation of the QR payload\<close>

definition hex_char :: "nat \<Rightarrow> nat" where
  "hex_char d = (if d < 10 then 48 + d else 87 + d)"

text \<open>\<^verbatim>\<open>json.dumps(..., ensure_ascii=False)\<close> escapes the quote (34), the backslash (92)
  and the control characters below 0x20 only; every other code point is written as it
  is.\<close>

definition json_escape_char :: "nat \<Rightarrow> str" where
  "json_escape_char c =
     (if c = 34 then [92, 34]
      else if c = 92 then [92, 92]
      else if c = 8 then 92 # lit ''b''
      else if c = 12 then 92 # lit ''f''
      else if c = 10 then 92 # lit ''n''
      else if c = 13 then 92 # lit ''r''
      else if c = 9 then 92 # lit ''t''
      else if c < 32 then 92 # lit ''u00'' @ [hex_char (c div 16), hex_char (c mod 16)]
      else [c])"

definition json_string :: "str \<Rightarrow> str" where
  "json_string s = [34] @ concat (map json_escape_char s) @ [34]"

fun json_value :: "json \<Rightarrow> str" where
  "json_value (JStr s) = json_string s"
| "json_value (JInt n) = str_int n"
| "json_value (JBool b) = (if b then lit ''true'' else lit ''false'')"
| "json_value JNull = lit ''null''"

fun json_items :: "(string \<times> json) list \<Rightarrow> str" where
  "json_items [] = []"
| "json_items [(k, v)] = json_string (lit k) @ lit '': '' @ json_value v"
| "json_items ((k, v) # kvs) =
     json_string (lit k) @ lit '': '' @ json_value v @ lit '', '' @ json_items kvs"

definition json_dumps :: "(string \<times> json) list \<Rightarrow> str" where
  "json_dumps kvs = lit ''{'' @ json_items kvs @ lit ''}''"

section \<open>The flat-file layout\<close>

text \<open>\<^verbatim>\<open>FIELDNAMES\<close> of the simple variant, and the header row the extended variant
  writes when it creates the file.\<close>

definition FIELDNAMES :: "string list" where
  "FIELDNAMES =
     [''health_id'', ''full_name'', ''age'', ''gender'', ''phone'', ''address'', ''native_state'',
      ''blood_group'', ''marital_status'', ''language'', ''financial_status'',
      ''registration_date'', ''face_filename'', ''qr_filename'']"

definition header_extended :: "string list" where
  "header_extended =
     [''health_id'', ''full_name'', ''age'', ''gender'', ''phone'', ''address'', ''native_state'',
      ''blood_group'', ''marital_status'', ''language'', ''financial_status'',
      ''allergies'', ''conditions'', ''inherited_diseases'', ''previous_treatments'',
      ''vaccination_count'',
      ''registration_date'', ''face_filename'', ''qr_filename'']"

text \<open>One row of the file of the simple variant, a field per column of
  \<^verbatim>\<open>FIELDNAMES\<close>.\<close>

record csv_row =
  health_id :: str
  full_name :: str
  age :: str
  gender :: str
  phone :: str
  address :: str
  native_state :: str
  blood_group :: str
  marital_status :: str
  language :: str
  financial_status :: str
  registration_date :: str
  face_filename :: str
  qr_filename :: str

text \<open>
  The registration rewrites the whole file: \<^verbatim>\<open>open(CSV_FILE, mode='w')\<close> empties it
  before the header and the rows are written. Either the write goes through and the
  file holds the rows handed to the writer, or it raises (a full disk, a withdrawn
  permission) and the file is left with whatever had reached it by then, possibly
  nothing of what it held.
\<close>

datatype write_result = Written | WriteFailed "csv_row list option"

section \<open>QR composition\<close>

text \<open>
  The QR encoder, the image library and the operating system are external. Of a QR
  symbol the model keeps the constructor arguments, the version chosen by
  \<^verbatim>\<open>make(fit=True)\<close> and the encoded text; of an image it keeps the pixel size and what
  was pasted where. What the libraries compute is a parameter of the model, collected
  in \<open>env\<close> together with the interpreter's two parameters:
  \<^item> \<open>today\<close>: \<^verbatim>\<open>datetime.utcnow().strftime('%Y-%m-%d')\<close>;
  \<^item> \<open>best_fit\<close>: the symbol version chosen for a text at an error-correction level,
    starting from the requested version; \<open>None\<close> when the text fits no version
    (\<^verbatim>\<open>DataOverflowError\<close>);
  \<^item> \<open>image_open\<close>: the pixel size of \<^verbatim>\<open>Image.open(path).convert('RGB')\<close> for the bytes
    of a file; \<open>None\<close> when the library raises;
  \<^item> \<open>b64decode\<close>: \<^verbatim>\<open>base64.b64decode\<close>; \<open>None\<close> when it raises;
  \<^item> \<open>strptime\<close>: \<^verbatim>\<open>datetime.strptime(s, '%Y-%m-%d')\<close> as (year, month, day);
    \<open>None\<close> when it raises; \<open>strftime\<close>: the inverse rendering;
  \<^item> \<open>db_datetime\<close>: the date the database stores for a value that is not a string
    and is bound to a date-time column as it is; \<open>None\<close> when the database refuses it;
  \<^item> \<open>csv_write\<close>: the outcome of rewriting the flat file, given what the file held
    and the rows handed to the writer.
\<close>

datatype ec_level = ERROR_CORRECT_L | ERROR_CORRECT_M | ERROR_CORRECT_Q | ERROR_CORRECT_H

record qr_code =
  version :: nat
  error_correction :: ec_level
  box_size :: nat
  border :: nat
  qr_data :: str

type_synonym date = "nat \<times> nat \<times> nat"

record env = interpreter +
  today :: str
  best_fit :: "ec_level \<Rightarrow> nat \<Rightarrow> str \<Rightarrow> nat option"
  image_open :: "bytes \<Rightarrow> (nat \<times> nat) option"
  b64decode :: "str \<Rightarrow> bytes option"
  strptime :: "str \<Rightarrow> date option"
  strftime :: "date \<Rightarrow> str"
  db_datetime :: "json \<Rightarrow> date option"
  csv_write :: "csv_row list option \<Rightarrow> csv_row list \<Rightarrow> write_result"

text \<open>The pasted face: the file's bytes, the thumbnail's size and the paste position.\<close>

record overlay =
  face_bytes :: bytes
  thumb :: "nat \<times> nat"
  pos :: "int \<times> int"

record qr_image =
  symbol :: qr_code
  img_size :: "nat \<times> nat"
  pasted :: "overlay option"

text \<open>\<^verbatim>\<open>qr.make(fit=True)\<close>.\<close>

definition make_fit :: "env \<Rightarrow> qr_code \<Rightarrow> py_error + qr_code" where
  "make_fit e qr =
     (case best_fit e (error_correction qr) (version qr) (qr_data qr) of
        None \<Rightarrow> Inl DataOverflowError
      | Some v \<Rightarrow> Inr (qr\<lparr>version := v\<rparr>))"

text \<open>\<^verbatim>\<open>qr.make_image(...)\<close>: a symbol of version \<open>v\<close> has \<open>4 v + 17\<close> modules a side,
  the border is added on both sides, and every module is \<open>box_size\<close> pixels wide.\<close>

definition make_image :: "qr_code \<Rightarrow> qr_image" where
  "make_image qr =
     (let side = (4 * version qr + 17 + 2 * border qr) * box_size qr
      in \<lparr>symbol = qr, img_size = (side, side), pasted = None\<rparr>)"

text \<open>
  \<^verbatim>\<open>Image.thumbnail((x, y))\<close> of the image library (version 7 and later), on an image of
  size \<open>(w, h)\<close>: an image that already fits the box is left as it is; otherwise one side
  takes the box's side and the other is the floor or the ceiling of the scaled side,
  whichever keeps the aspect ratio closer, and at least 1. The library compares the
  ratios in floating point; here they are compared exactly, cross-multiplied. Dividing
  by a zero side raises, which is \<open>None\<close>.
\<close>

definition thumbnail :: "nat \<times> nat \<Rightarrow> nat \<times> nat \<Rightarrow> (nat \<times> nat) option" where
  "thumbnail sz box =
     (let w = fst sz; h = snd sz; x = fst box; y = snd box in
      if w \<le> x \<and> h \<le> y then Some (w, h)
      else if h = 0 \<or> y = 0 then None
      else if w * y \<le> x * h then
        (let f = (y * w) div h; c = (y * w + h - 1) div h;
             n = (if \<bar>int (w * y) - int (f * h)\<bar> \<le> \<bar>int (w * y) - int (c * h)\<bar> then f else c)
         in Some (max n 1, y))
      else
        (let f = (x * h) div w; c = (x * h + w - 1) div w;
             n = (if f = 0 then 0
                  else if \<bar>int (w * f) - int (x * h)\<bar> * int c \<le> \<bar>int (w * c) - int (x * h)\<bar> * int f
                  then f else c)
         in Some (x, max n 1)))"

text \<open>The body of the \<^verbatim>\<open>try\<close> block of \<^verbatim>\<open>_generate_qr_image\<close>; \<open>None\<close> is the
  \<^verbatim>\<open>except Exception: pass\<close>.\<close>

definition thumb_size :: "nat \<times> nat \<Rightarrow> nat" where
  "thumb_size qsize = max 64 (fst qsize div 6)"

definition face_overlay :: "env \<Rightarrow> nat \<times> nat \<Rightarrow> bytes \<Rightarrow> overlay option" where
  "face_overlay e qsize bytes =
     (case image_open e bytes of
        None \<Rightarrow> None
      | Some face_img \<Rightarrow>
          (case thumbnail face_img (thumb_size qsize, thumb_size qsize) of
             None \<Rightarrow> None
           | Some t \<Rightarrow>
               (let bordered = (fst t + 8, snd t + 8)
                in Some \<lparr>face_bytes = bytes, thumb = t,
                         pos = (int (fst qsize) - int (fst bordered) - 8,
                                int (snd qsize) - int (snd bordered) - 8)\<rparr>)))"

text \<open>
  The two asset directories, as maps from file name to content. A stored QR file is
  modelled by the image that was saved. Writing an asset file always succeeds in the
  model.
\<close>

record assets =
  faces :: "str \<rightharpoonup> bytes"
  qrs :: "str \<rightharpoonup> qr_image"

definition worker_qr :: "str \<Rightarrow> qr_code" where
  "worker_qr content =
     \<lparr>version = 2, error_correction = ERROR_CORRECT_M, box_size = 10, border = 4,
      qr_data = content\<rparr>"

definition generate_qr_image ::
  "env \<Rightarrow> str \<Rightarrow> str \<Rightarrow> str option \<Rightarrow> 'a assets_scheme
     \<Rightarrow> py_error + (str \<times> 'a assets_scheme)" where
  "generate_qr_image e content health_id' face_filename' st =
     (case make_fit e (worker_qr content) of
        Inl err \<Rightarrow> Inl err
      | Inr qr \<Rightarrow>
          (let qr_img = make_image qr;
               qr_img' =
                 (case face_filename' of
                    None \<Rightarrow> qr_img
                  | Some fname \<Rightarrow>
                      if fname = [] then qr_img
                      else (case faces st fname of
                              None \<Rightarrow> qr_img
                            | Some bytes \<Rightarrow>
                                (case face_overlay e (img_size qr_img) bytes of
                                   None \<Rightarrow> qr_img
                                 | Some ov \<Rightarrow> qr_img\<lparr>pasted := Some ov\<rparr>)));
               filename = health_id' @ lit ''.png''
           in Inr (filename, st\<lparr>qrs := (qrs st)(filename \<mapsto> qr_img')\<rparr>)))"

text \<open>\<^verbatim>\<open>face_filename or None\<close>.\<close>

definition or_None :: "str \<Rightarrow> str option" where
  "or_None s = (if s = [] then None else Some s)"

datatype response =
    Created str str "str option"
  | BadRequest string
  | NotFound
  | ServerError py_error
  | Png qr_image

text \<open>\<^verbatim>\<open>GET /api/generate-qr\<close>, applied to \<^verbatim>\<open>request.args.get('data')\<close>.\<close>

definition generic_qr :: "str \<Rightarrow> qr_code" where
  "generic_qr qr_data' =
     \<lparr>version = 1, error_correction = ERROR_CORRECT_L, box_size = 10, border = 4,
      qr_data = qr_data'\<rparr>"

definition generate_qr_generic :: "env \<Rightarrow> str option \<Rightarrow> response" where
  "generate_qr_generic e arg =
     (case arg of
        None \<Rightarrow> BadRequest ''No data provided''
      | Some qr_data' \<Rightarrow>
          if qr_data' = [] then BadRequest ''No data provided''
          else (case make_fit e (generic_qr qr_data') of
                  Inl err \<Rightarrow> ServerError err
                | Inr qr \<Rightarrow> Png (make_image qr)))"

section \<open>Registration: normalising the submission\<close>

text \<open>
  \<open>data\<close> is the dictionary \<^verbatim>\<open>request.get_json(silent=True) or {}\<close>: a missing or
  unparseable body is the empty dictionary. The local variables of \<^verbatim>\<open>create_worker\<close>
  are collected in a record; \<open>n_age\<close> is \<open>None\<close> for the empty string that
  \<^verbatim>\<open>int(...) or ''\<close> yields at zero.
\<close>

definition bind_err :: "'e + 'a \<Rightarrow> ('a \<Rightarrow> 'e + 'b) \<Rightarrow> 'e + 'b" where
  "bind_err m f = (case m of Inl err \<Rightarrow> Inl err | Inr a \<Rightarrow> f a)"

record fields =
  n_full_name :: str
  n_age :: "int option"
  n_gender :: str
  n_phone :: str
  n_address :: str
  n_native_state :: str
  n_blood_group :: str
  n_marital_status :: str
  n_language :: str
  n_financial_status :: str
  n_registration_date :: json

record fields_ext = fields +
  n_allergies :: str
  n_conditions :: str
  n_inherited_diseases :: str
  n_previous_treatments :: str
  n_vaccination_count :: int

text \<open>\<^verbatim>\<open>int(data.get('age') or 0) or ''\<close>.\<close>

definition age_field ::
  "'a interpreter_scheme \<Rightarrow> (string \<rightharpoonup> json) \<Rightarrow> py_error + int option" where
  "age_field p data =
     bind_err (py_int p (get_or data ''age'' (JInt 0)))
       (\<lambda>n. Inr (if n = 0 then None else Some n))"

text \<open>\<^verbatim>\<open>int(data.get('vaccinationCount') or 0)\<close>.\<close>

definition vaccination_field ::
  "'a interpreter_scheme \<Rightarrow> (string \<rightharpoonup> json) \<Rightarrow> py_error + int" where
  "vaccination_field p data = py_int p (get_or data ''vaccinationCount'' (JInt 0))"

text \<open>\<^verbatim>\<open>str(age)\<close>.\<close>

definition str_age :: "int option \<Rightarrow> str" where
  "str_age a = (case a of None \<Rightarrow> [] | Some n \<Rightarrow> str_int n)"

text \<open>The assignments from \<^verbatim>\<open>full_name\<close> to \<^verbatim>\<open>registration_date\<close> of the simple
  variant, in the source's order: the first one that raises decides the error.\<close>

definition parse_fields :: "env \<Rightarrow> (string \<rightharpoonup> json) \<Rightarrow> py_error + fields" where
  "parse_fields e data =
     bind_err (text_field data ''fullName'') (\<lambda>full_name.
     bind_err (age_field e data) (\<lambda>age.
     bind_err (text_field data ''gender'') (\<lambda>gender.
     bind_err (text_field data ''phone'') (\<lambda>phone.
     bind_err (text_field data ''address'') (\<lambda>address.
     bind_err (text_field data ''nativeState'') (\<lambda>native_state.
     bind_err (text_field data ''bloodGroup'') (\<lambda>blood_group.
     bind_err (text_field data ''maritalStatus'') (\<lambda>marital_status.
     bind_err (text_field data ''language'') (\<lambda>language.
     bind_err (text_field data ''financialStatus'') (\<lambda>financial_status.
       Inr \<lparr>n_full_name = full_name, n_age = age, n_gender = gender, n_phone = phone,
            n_address = address, n_native_state = native_state,
            n_blood_group = blood_group, n_marital_status = marital_status,
            n_language = language, n_financial_status = financial_status,
            n_registration_date = get_or data ''registrationDate'' (JStr (today e))\<rparr>))))))))))"

text \<open>The extended variant reads five more fields before the registration date.\<close>

definition parse_fields_ext :: "env \<Rightarrow> (string \<rightharpoonup> json) \<Rightarrow> py_error + fields_ext" where
  "parse_fields_ext e data =
     bind_err (parse_fields e data) (\<lambda>f.
     bind_err (text_field data ''allergies'') (\<lambda>allergies.
     bind_err (text_field data ''conditions'') (\<lambda>conditions.
     bind_err (text_field data ''inheritedDiseases'') (\<lambda>inherited_diseases.
     bind_err (text_field data ''previousTreatments'') (\<lambda>previous_treatments.
     bind_err (vaccination_field e data) (\<lambda>vaccination_count.
       Inr (fields.extend f
              \<lparr>n_allergies = allergies, n_conditions = conditions,
               n_inherited_diseases = inherited_diseases,
               n_previous_treatments = previous_treatments,
               n_vaccination_count = vaccination_count\<rparr>)))))))"

subsection \<open>Face asset\<close>

text \<open>\<^verbatim>\<open>_save_face_image\<close>: any exception gives the empty file name and writes nothing.
  A truthy value that is not a string fails at \<^verbatim>\<open>',' in face_b64_data\<close>.\<close>

definition second_part :: "str \<Rightarrow> str" where
  "second_part s = takeWhile (\<lambda>c. c \<noteq> 44) (tl (dropWhile (\<lambda>c. c \<noteq> 44) s))"

definition save_face_image ::
  "env \<Rightarrow> str \<Rightarrow> json \<Rightarrow> 'a assets_scheme \<Rightarrow> str \<times> 'a assets_scheme" where
  "save_face_image e health_id' face_b64_data st =
     (case face_b64_data of
        JStr s \<Rightarrow>
          (case b64decode e (if 44 \<in> set s then second_part s else s) of
             None \<Rightarrow> ([], st)
           | Some image_bytes \<Rightarrow>
               (let filename = health_id' @ lit ''.png''
                in (filename, st\<lparr>faces := (faces st)(filename \<mapsto> image_bytes)\<rparr>)))
      | _ \<Rightarrow> ([], st))"

text \<open>\<^verbatim>\<open>_save_face_image(health_id, face_b64) if face_b64 else ''\<close>.\<close>

definition store_face ::
  "env \<Rightarrow> str \<Rightarrow> (string \<rightharpoonup> json) \<Rightarrow> 'a assets_scheme \<Rightarrow> str \<times> 'a assets_scheme" where
  "store_face e health_id' data st =
     (case data ''faceImage'' of
        None \<Rightarrow> ([], st)
      | Some face_b64 \<Rightarrow>
          if truthy face_b64 then save_face_image e health_id' face_b64 st else ([], st))"

text \<open>The body of the 201 response; the host part of the two locators is left out.\<close>

definition created :: "str \<Rightarrow> str \<Rightarrow> response" where
  "created health_id' face_filename' =
     Created health_id' (lit ''/api/workers/'' @ health_id' @ lit ''/qr.png'')
       (if face_filename' = [] then None
        else Some (lit ''/api/workers/'' @ health_id' @ lit ''/face.png''))"

section \<open>Simple variant: the flat file\<close>

text \<open>The file is the list of its rows below the header, or \<open>None\<close> when it does not
  exist.\<close>

record csv_state = assets +
  csv_file :: "csv_row list option"

text \<open>The payload dictionary of the simple variant, in insertion order.\<close>

definition qr_payload :: "str \<Rightarrow> 'a fields_scheme \<Rightarrow> (string \<times> json) list" where
  "qr_payload health_id' f =
     [(''healthId'', JStr health_id'),
      (''fullName'', JStr (n_full_name f)),
      (''gender'', JStr (n_gender f)),
      (''address'', JStr (n_address f)),
      (''nativeState'', JStr (n_native_state f)),
      (''bloodGroup'', JStr (n_blood_group f)),
      (''maritalStatus'', JStr (n_marital_status f)),
      (''financialStatus'', JStr (n_financial_status f)),
      (''registrationDate'', n_registration_date f)]"

text \<open>The row written for a submission.\<close>

definition new_row :: "str \<Rightarrow> fields \<Rightarrow> str \<Rightarrow> str \<Rightarrow> csv_row" where
  "new_row health_id' f face_filename' qr_filename' =
     \<lparr>health_id = health_id', full_name = n_full_name f, age = str_age (n_age f),
      gender = n_gender f, phone = n_phone f, address = n_address f,
      native_state = n_native_state f, blood_group = n_blood_group f,
      marital_status = n_marital_status f, language = n_language f,
      financial_status = n_financial_status f,
      registration_date = py_str (n_registration_date f),
      face_filename = face_filename', qr_filename = qr_filename'\<rparr>"

text \<open>The loop over the rows read from the file: \<open>rows\<close> and \<open>exists\<close> are the loop's
  two variables.\<close>

fun upsert_loop ::
  "str \<Rightarrow> csv_row \<Rightarrow> csv_row list \<Rightarrow> csv_row list \<Rightarrow> bool \<Rightarrow> csv_row list \<times> bool" where
  "upsert_loop hid new [] rows exists = (rows, exists)"
| "upsert_loop hid new (row # rest) rows exists =
     (if health_id row = hid then upsert_loop hid new rest (rows @ [new]) True
      else upsert_loop hid new rest (rows @ [row]) exists)"

definition upsert_rows :: "str \<Rightarrow> csv_row \<Rightarrow> csv_row list option \<Rightarrow> csv_row list" where
  "upsert_rows hid new file =
     (let (rows, exists) =
            (case file of None \<Rightarrow> ([], False) | Some rs \<Rightarrow> upsert_loop hid new rs [] False)
      in if exists then rows else rows @ [new])"

text \<open>\<^verbatim>\<open>POST /api/workers\<close> of the simple variant. Every exception is caught by the
  handler and answered with 500; what had been written by then stays written.\<close>

definition create_worker ::
  "env \<Rightarrow> (string \<rightharpoonup> json) \<Rightarrow> csv_state \<Rightarrow> response \<times> csv_state" where
  "create_worker e data st =
     (case text_field data ''healthId'' of
        Inl err \<Rightarrow> (ServerError err, st)
      | Inr hid \<Rightarrow>
          if hid = [] then (BadRequest ''healthId is required'', st)
          else
            (case parse_fields e data of
               Inl err \<Rightarrow> (ServerError err, st)
             | Inr f \<Rightarrow>
                 (let (face_fn, st1) = store_face e hid data st
                  in case generate_qr_image e (json_dumps (qr_payload hid f)) hid
                            (or_None face_fn) st1 of
                       Inl err \<Rightarrow> (ServerError err, st1)
                     | Inr (qr_fn, st2) \<Rightarrow>
                         (let rows = upsert_rows hid (new_row hid f face_fn qr_fn)
                                       (csv_file st2)
                          in case csv_write e (csv_file st2) rows of
                               Written \<Rightarrow>
                                 (created hid face_fn, st2\<lparr>csv_file := Some rows\<rparr>)
                             | WriteFailed left \<Rightarrow>
                                 (ServerError OSError, st2\<lparr>csv_file := left\<rparr>)))))"

text \<open>\<^verbatim>\<open>_read_worker\<close>: the first row with the identifier.\<close>

definition read_worker :: "str \<Rightarrow> csv_state \<Rightarrow> csv_row option" where
  "read_worker hid st =
     (case csv_file st of
        None \<Rightarrow> None
      | Some rows \<Rightarrow> find (\<lambda>row. health_id row = hid) rows)"


text \<open>\<^verbatim>\<open>send_file(path)\<close> on the QR directory.\<close>

definition send_qr :: "str \<Rightarrow> 'a assets_scheme \<Rightarrow> response" where
  "send_qr path st =
     (case qrs st path of None \<Rightarrow> ServerError FileNotFoundError | Some img \<Rightarrow> Png img)"


section \<open>Extended variant: the relational store\<close>

text \<open>
  A row of the table \<^verbatim>\<open>workers\<close>; a nullable column is an option. Identifiers are
  compared as exact strings. The table is the list of its rows in insertion order, and
  \<open>next_id\<close> is the next value of the auto-increment key.
\<close>

record worker =
  w_id :: nat
  w_health_id :: str
  w_full_name :: str
  w_age :: "int option"
  w_gender :: "str option"
  w_phone :: "str option"
  w_address :: "str option"
  w_native_state :: "str option"
  w_blood_group :: "str option"
  w_marital_status :: "str option"
  w_language :: "str option"
  w_financial_status :: "str option"
  w_allergies :: "str option"
  w_conditions :: "str option"
  w_inherited_diseases :: "str option"
  w_previous_treatments :: "str option"
  w_vaccination_count :: int
  w_registration_date :: date
  w_face_filename :: "str option"
  w_qr_filename :: "str option"

record db_state = assets +
  workers :: "worker list"
  next_id :: nat

text \<open>The payload dictionary of the extended variant.\<close>

definition qr_payload_back :: "str \<Rightarrow> 'a fields_scheme \<Rightarrow> (string \<times> json) list" where
  "qr_payload_back health_id' f =
     [(''healthId'', JStr health_id'),
      (''fullName'', JStr (n_full_name f)),
      (''gender'', JStr (n_gender f)),
      (''nativeState'', JStr (n_native_state f)),
      (''registrationDate'', n_registration_date f)]"

text \<open>\<^verbatim>\<open>DBWorker(health_id=health_id)\<close>: every other attribute is still unset.\<close>

definition DBWorker :: "nat \<Rightarrow> str \<Rightarrow> worker" where
  "DBWorker i health_id' =
     \<lparr>w_id = i, w_health_id = health_id', w_full_name = [], w_age = None, w_gender = None,
      w_phone = None, w_address = None, w_native_state = None, w_blood_group = None,
      w_marital_status = None, w_language = None, w_financial_status = None,
      w_allergies = None, w_conditions = None, w_inherited_diseases = None,
      w_previous_treatments = None, w_vaccination_count = 0,
      w_registration_date = (0, 0, 0), w_face_filename = None, w_qr_filename = None\<rparr>"

text \<open>\<^verbatim>\<open>age or None\<close>.\<close>

definition age_or_None :: "int option \<Rightarrow> int option" where
  "age_or_None a = (case a of None \<Rightarrow> None | Some n \<Rightarrow> if n = 0 then None else Some n)"

text \<open>The assignments \<^verbatim>\<open>w.full_name = full_name\<close> to \<^verbatim>\<open>w.qr_filename = qr_filename\<close>.\<close>

definition assign :: "worker \<Rightarrow> fields_ext \<Rightarrow> date \<Rightarrow> str \<Rightarrow> str \<Rightarrow> worker" where
  "assign w f d face_filename' qr_filename' =
     w\<lparr>w_full_name := n_full_name f,
       w_age := age_or_None (n_age f),
       w_gender := Some (n_gender f),
       w_phone := Some (n_phone f),
       w_address := Some (n_address f),
       w_native_state := Some (n_native_state f),
       w_blood_group := Some (n_blood_group f),
       w_marital_status := Some (n_marital_status f),
       w_language := Some (n_language f),
       w_financial_status := Some (n_financial_status f),
       w_allergies := Some (n_allergies f),
       w_conditions := Some (n_conditions f),
       w_inherited_diseases := Some (n_inherited_diseases f),
       w_previous_treatments := Some (n_previous_treatments f),
       w_vaccination_count := n_vaccination_count f,
       w_registration_date := d,
       w_face_filename := Some face_filename',
       w_qr_filename := Some qr_filename'\<rparr>"

text \<open>The value assigned to \<^verbatim>\<open>w.registration_date\<close>: a string is parsed, and the parse
  may raise; any other value is handed to the database at the commit.\<close>

definition registration_datetime :: "env \<Rightarrow> json \<Rightarrow> py_error + date" where
  "registration_datetime e v =
     (case v of
        JStr s \<Rightarrow> (case strptime e s of None \<Rightarrow> Inl ValueError | Some d \<Rightarrow> Inr d)
      | _ \<Rightarrow> (case db_datetime e v of None \<Rightarrow> Inl DatabaseError | Some d \<Rightarrow> Inr d))"

text \<open>
  The column declarations of \<^verbatim>\<open>db.py\<close>: the database (in its default strict mode)
  refuses at the commit a string longer than its column and an integer outside the
  32-bit range.
\<close>

definition fits :: "nat \<Rightarrow> str option \<Rightarrow> bool" where
  "fits n v = (case v of None \<Rightarrow> True | Some s \<Rightarrow> length s \<le> n)"

definition int32 :: "int \<Rightarrow> bool" where
  "int32 n = (- 2147483648 \<le> n \<and> n \<le> 2147483647)"

definition fits_columns :: "worker \<Rightarrow> bool" where
  "fits_columns w =
     (length (w_health_id w) \<le> 32 \<and> length (w_full_name w) \<le> 120
      \<and> (case w_age w of None \<Rightarrow> True | Some n \<Rightarrow> int32 n)
      \<and> fits 16 (w_gender w) \<and> fits 32 (w_phone w) \<and> fits 255 (w_address w)
      \<and> fits 64 (w_native_state w) \<and> fits 8 (w_blood_group w)
      \<and> fits 24 (w_marital_status w) \<and> fits 16 (w_language w)
      \<and> fits 32 (w_financial_status w) \<and> fits 255 (w_allergies w)
      \<and> fits 255 (w_conditions w) \<and> fits 255 (w_inherited_diseases w)
      \<and> fits 65535 (w_previous_treatments w) \<and> int32 (w_vaccination_count w)
      \<and> fits 128 (w_face_filename w) \<and> fits 128 (w_qr_filename w))"

text \<open>The row returned by \<^verbatim>\<open>first()\<close> is the one the session updates.\<close>

fun update_first :: "str \<Rightarrow> worker \<Rightarrow> worker list \<Rightarrow> worker list" where
  "update_first hid w' [] = []"
| "update_first hid w' (r # rs) =
     (if w_health_id r = hid then w' # rs else r # update_first hid w' rs)"

text \<open>The session of \<^verbatim>\<open>create_worker\<close>, from the query to the commit; an exception
  rolls the table back to what it was.\<close>

definition persist ::
  "env \<Rightarrow> str \<Rightarrow> fields_ext \<Rightarrow> str \<Rightarrow> str \<Rightarrow> db_state \<Rightarrow> py_error + db_state" where
  "persist e hid f face_fn qr_fn st =
     (let found = find (\<lambda>w. w_health_id w = hid) (workers st);
          w = (case found of None \<Rightarrow> DBWorker (next_id st) hid | Some w \<Rightarrow> w)
      in case registration_datetime e (n_registration_date f) of
           Inl err \<Rightarrow> Inl err
         | Inr d \<Rightarrow>
             (let w' = assign w f d face_fn qr_fn
              in if \<not> fits_columns w' then Inl DatabaseError
                 else if found = None
                 then Inr (st\<lparr>workers := workers st @ [w'], next_id := Suc (next_id st)\<rparr>)
                 else Inr (st\<lparr>workers := update_first hid w' (workers st)\<rparr>)))"

text \<open>\<^verbatim>\<open>POST /api/workers\<close> of the extended variant.\<close>

definition create_worker_back ::
  "env \<Rightarrow> (string \<rightharpoonup> json) \<Rightarrow> db_state \<Rightarrow> response \<times> db_state" where
  "create_worker_back e data st =
     (case text_field data ''healthId'' of
        Inl err \<Rightarrow> (ServerError err, st)
      | Inr hid \<Rightarrow>
          if hid = [] then (BadRequest ''healthId is required'', st)
          else
            (case parse_fields_ext e data of
               Inl err \<Rightarrow> (ServerError err, st)
             | Inr f \<Rightarrow>
                 (let (face_fn, st1) = store_face e hid data st
                  in case generate_qr_image e (json_dumps (qr_payload_back hid f)) hid
                            (or_None face_fn) st1 of
                       Inl err \<Rightarrow> (ServerError err, st1)
                     | Inr (qr_fn, st2) \<Rightarrow>
                         (case persist e hid f face_fn qr_fn st2 of
                            Inl err \<Rightarrow> (ServerError err, st2)
                          | Inr st3 \<Rightarrow> (created hid face_fn, st3)))))"

text \<open>\<^verbatim>\<open>_read_worker\<close> of the extended variant: the dictionary it builds, with the five
  clinical keys added to those of the flat file.\<close>

record row_ext = csv_row +
  allergies :: str
  conditions :: str
  inherited_diseases :: str
  previous_treatments :: str
  vaccination_count :: str

definition or_empty :: "str option \<Rightarrow> str" where
  "or_empty v = (case v of None \<Rightarrow> [] | Some s \<Rightarrow> s)"

definition read_worker_back :: "env \<Rightarrow> str \<Rightarrow> db_state \<Rightarrow> row_ext option" where
  "read_worker_back e hid st =
     (case find (\<lambda>w. w_health_id w = hid) (workers st) of
        None \<Rightarrow> None
      | Some w \<Rightarrow>
          Some (csv_row.extend
            \<lparr>health_id = w_health_id w,
             full_name = w_full_name w,
             age = str_age (age_or_None (w_age w)),
             gender = or_empty (w_gender w),
             phone = or_empty (w_phone w),
             address = or_empty (w_address w),
             native_state = or_empty (w_native_state w),
             blood_group = or_empty (w_blood_group w),
             marital_status = or_empty (w_marital_status w),
             language = or_empty (w_language w),
             financial_status = or_empty (w_financial_status w),
             registration_date = strftime e (w_registration_date w),
             face_filename = or_empty (w_face_filename w),
             qr_filename = or_empty (w_qr_filename w)\<rparr>
            \<lparr>allergies = or_empty (w_allergies w),
             conditions = or_empty (w_conditions w),
             inherited_diseases = or_empty (w_inherited_diseases w),
             previous_treatments = or_empty (w_previous_treatments w),
             vaccination_count = str_int (w_vaccination_count w)\<rparr>))"



section \<open>Example environment and stores\<close>

text \<open>
  A concrete environment for the examples: an interpreter with version 14 of the
  Unicode database and the default conversion limit, a stand-in encoder that needs one
  more version for every 20 characters and has 40 versions, an image decoder that knows
  three files, a calendar that knows one day, and a disk that takes every write.
\<close>

definition example_env :: env where
  "example_env =
     \<lparr>unicode_decimal = decimal_14, int_max_str_digits = 4300,
      today = lit ''2024-01-15'',
      best_fit = (\<lambda>level start text.
                    if length text div 20 < 40 then Some (max start (length text div 20 + 1))
                    else None),
      image_open = (\<lambda>bytes. if bytes = ''face-10x10'' then Some (10, 10)
                             else if bytes = ''face-200x100'' then Some (200, 100)
                             else if bytes = ''face-90x1000'' then Some (90, 1000)
                             else None),
      b64decode = (\<lambda>s. if s = lit ''ZmFjZS0xMHgxMA=='' then Some ''face-10x10'' else None),
      strptime = (\<lambda>s. if s = lit ''2024-01-15'' then Some (2024, 1, 15) else None),
      strftime = (\<lambda>d. if d = (2024, 1, 15) then lit ''2024-01-15'' else []),
      db_datetime = (\<lambda>v. None),
      csv_write = (\<lambda>old rows. Written)\<rparr>"

text \<open>The stores after start-up: the flat file holds its header only, the directories
  are empty. The table is taken empty (the demonstration rows are not needed here).\<close>

definition csv_start :: csv_state where
  "csv_start = \<lparr>faces = Map.empty, qrs = Map.empty, csv_file = Some []\<rparr>"

definition db_start :: db_state where
  "db_start = \<lparr>faces = Map.empty, qrs = Map.empty, workers = [], next_id = 1\<rparr>"

text \<open>A store whose face file for \<open>W1001\<close> is not an image.\<close>

definition csv_bad_face :: csv_state where
  "csv_bad_face =
     \<lparr>faces = [lit ''W1001.png'' \<mapsto> ''not an image''], qrs = Map.empty, csv_file = Some []\<rparr>"

text \<open>The submission of the specification's example, with an address.\<close>

definition example_submission :: "string \<rightharpoonup> json" where
  "example_submission =
     [''healthId'' \<mapsto> JStr (lit ''W1001''), ''fullName'' \<mapsto> JStr (lit ''Asha Devi''),
      ''gender'' \<mapsto> JStr (lit ''Female''), ''address'' \<mapsto> JStr (lit ''Patna''),
      ''nativeState'' \<mapsto> JStr (lit ''Bihar''),
      ''registrationDate'' \<mapsto> JStr (lit ''2024-01-15'')]"

text \<open>The QR text of the example registration in the extended variant, a store holding
  a 200 by 100 photo of the worker, and the example submission with a small photo.\<close>

definition example_text :: str where
  "example_text =
     json_dumps
       [(''healthId'', JStr (lit ''W1001'')), (''fullName'', JStr (lit ''Asha Devi'')),
        (''gender'', JStr (lit ''Female'')), (''nativeState'', JStr (lit ''Bihar'')),
        (''registrationDate'', JStr (lit ''2024-01-15''))]"

definition csv_faces :: csv_state where
  "csv_faces =
     \<lparr>faces = [lit ''W1001.png'' \<mapsto> ''face-200x100''], qrs = Map.empty, csv_file = Some []\<rparr>"

definition face_submission :: "string \<rightharpoonup> json" where
  "face_submission = example_submission(''faceImage'' \<mapsto> JStr (lit ''ZmFjZS0xMHgxMA==''))"




text \<open>A second submission for the same worker, and the stores after one and after two
  registrations.\<close>

definition second_submission :: "string \<rightharpoonup> json" where
  "second_submission =
     example_submission(''fullName'' \<mapsto> JStr (lit ''Asha Kumari''),
       ''address'' \<mapsto> JStr (lit ''Gaya''), ''age'' \<mapsto> JInt 31)"

definition bad_second_submission :: "string \<rightharpoonup> json" where
  "bad_second_submission = second_submission(''age'' \<mapsto> JStr (lit ''abc''))"

definition csv_once :: csv_state where
  "csv_once = snd (create_worker example_env example_submission csv_start)"

definition csv_twice :: csv_state where
  "csv_twice = snd (create_worker example_env second_submission csv_once)"

definition db_once :: db_state where
  "db_once = snd (create_worker_back example_env example_submission db_start)"

definition db_twice :: db_state where
  "db_twice = snd (create_worker_back example_env second_submission db_once)"

section \<open>The persisted layout\<close>

text \<open>
  C9, as stated, fails on the simple variant: its header has 14 columns, not 16.
\<close>

theorem column_count_counterexample: "length FIELDNAMES \<noteq> 16"
  by (simp add: FIELDNAMES_def)

text \<open>
  C9 (amended): the header of the simple variant has exactly 14 columns and the header
  of the extended variant exactly 19; each is a fixed list of distinct names running
  from the health identifier column to the QR asset name column.
\<close>

theorem column_count:
  "length FIELDNAMES = 14 \<and> hd FIELDNAMES = ''health_id'' \<and> last FIELDNAMES = ''qr_filename''
   \<and> length header_extended = 19 \<and> hd header_extended = ''health_id''
   \<and> last header_extended = ''qr_filename'' \<and> distinct FIELDNAMES \<and> distinct header_extended"
  by (simp add: FIELDNAMES_def header_extended_def)

section \<open>Symbol parameters\<close>

lemma make_fit_keeps:
  "make_fit e qr = Inr qr' \<Longrightarrow>
     error_correction qr' = error_correction qr \<and> box_size qr' = box_size qr
     \<and> border qr' = border qr \<and> qr_data qr' = qr_data qr"
  by (auto simp: make_fit_def split: option.splits)

lemma symbol_make_image: "symbol (make_image qr) = qr"
  by (simp add: make_image_def Let_def)

lemma generate_qr_image_symbol:
  assumes "generate_qr_image e content hid face st = Inr (fn, st')"
  shows "\<exists>img qr. qrs st' fn = Some img \<and> make_fit e (worker_qr content) = Inr qr
           \<and> symbol img = qr \<and> fn = hid @ lit ''.png''"
  using assms
  by (auto simp: generate_qr_image_def Let_def symbol_make_image
      split: sum.splits option.splits if_splits)

text \<open>
  C6: every worker QR that is composed is stored with the medium error-correction
  level, module size 10 and border 4, and is requested at version 2; every symbol of
  the generic endpoint has the low level, module size 10 and border 4, and is requested
  at version 1, which is smaller.
\<close>

theorem qr_parameters:
  "(generate_qr_image e content hid face st = Inr (fn, st') \<longrightarrow>
      map_option (error_correction \<circ> symbol) (qrs st' fn) = Some ERROR_CORRECT_M
      \<and> map_option (box_size \<circ> symbol) (qrs st' fn) = Some 10
      \<and> map_option (border \<circ> symbol) (qrs st' fn) = Some 4)
   \<and> (generate_qr_generic e arg = Png img \<longrightarrow>
        error_correction (symbol img) = ERROR_CORRECT_L
        \<and> box_size (symbol img) = 10 \<and> border (symbol img) = 4)
   \<and> version (generic_qr text') < version (worker_qr text)
   \<and> version (worker_qr text) = 2 \<and> version (generic_qr text') = 1"
proof -
  have a: "generate_qr_image e content hid face st = Inr (fn, st') \<longrightarrow>
      map_option (error_correction \<circ> symbol) (qrs st' fn) = Some ERROR_CORRECT_M
      \<and> map_option (box_size \<circ> symbol) (qrs st' fn) = Some 10
      \<and> map_option (border \<circ> symbol) (qrs st' fn) = Some 4"
  proof
    assume h: "generate_qr_image e content hid face st = Inr (fn, st')"
    from generate_qr_image_symbol [OF h] obtain img' qr where
      i: "qrs st' fn = Some img'" and f: "make_fit e (worker_qr content) = Inr qr"
      and s: "symbol img' = qr"
      by blast
    from make_fit_keeps [OF f] s i
    show "map_option (error_correction \<circ> symbol) (qrs st' fn) = Some ERROR_CORRECT_M
      \<and> map_option (box_size \<circ> symbol) (qrs st' fn) = Some 10
      \<and> map_option (border \<circ> symbol) (qrs st' fn) = Some 4"
      by (simp add: worker_qr_def)
  qed
  have b: "generate_qr_generic e arg = Png img \<longrightarrow>
        error_correction (symbol img) = ERROR_CORRECT_L
        \<and> box_size (symbol img) = 10 \<and> border (symbol img) = 4"
    by (auto simp: generate_qr_generic_def generic_qr_def symbol_make_image
        split: option.splits if_splits sum.splits dest!: make_fit_keeps)
  show ?thesis using a b by (simp add: worker_qr_def generic_qr_def)
qed

theorem qr_parameters_witness:
  "generate_qr_image example_env (lit ''hello'') (lit ''W1001'') None csv_start =
      Inr ((lit ''W1001.png''),
           csv_start\<lparr>qrs := [lit ''W1001.png'' \<mapsto> make_image (worker_qr (lit ''hello''))]\<rparr>)
   \<and> generate_qr_generic example_env (Some (lit ''hello'')) = Png (make_image (generic_qr (lit ''hello'')))
   \<and> map_option (error_correction \<circ> symbol)
        (qrs (csv_start\<lparr>qrs := [lit ''W1001.png'' \<mapsto> make_image (worker_qr (lit ''hello''))]\<rparr>)
           (lit ''W1001.png''))
      = Some ERROR_CORRECT_M
   \<and> error_correction (symbol (make_image (generic_qr (lit ''hello'')))) = ERROR_CORRECT_L
   \<and> version (generic_qr (lit ''hello'')) < version (worker_qr (lit ''hello''))"
proof -
  have h1: "generate_qr_image example_env (lit ''hello'') (lit ''W1001'') None csv_start =
      Inr ((lit ''W1001.png''),
           csv_start\<lparr>qrs := [lit ''W1001.png'' \<mapsto> make_image (worker_qr (lit ''hello''))]\<rparr>)"
    by (simp add: generate_qr_image_def make_fit_def example_env_def worker_qr_def
        csv_start_def Let_def max_def lit_def)
  have h2: "generate_qr_generic example_env (Some (lit ''hello''))
              = Png (make_image (generic_qr (lit ''hello'')))"
    by (simp add: generate_qr_generic_def make_fit_def example_env_def generic_qr_def lit_def)
  from qr_parameters [of example_env "lit ''hello''" "lit ''W1001''" None csv_start "lit ''W1001.png''"
      "csv_start\<lparr>qrs := [lit ''W1001.png'' \<mapsto> make_image (worker_qr (lit ''hello''))]\<rparr>"
      "Some (lit ''hello'')" "make_image (generic_qr (lit ''hello''))" "lit ''hello''" "lit ''hello''"] h1 h2
  show ?thesis by simp
qed

section \<open>Validation of the identifier\<close>

lemma dropWhile_all_Nil:
  assumes "\<forall>c\<in>set (dropWhile P s). P c"
  shows "dropWhile P s = []"
proof (rule ccontr)
  assume n: "dropWhile P s \<noteq> []"
  then have "\<not> P (hd (dropWhile P s))" by (rule hd_dropWhile)
  moreover from n have "hd (dropWhile P s) \<in> set (dropWhile P s)" by simp
  ultimately show False using assms by blast
qed

lemma strip_empty_iff: "strip s = [] \<longleftrightarrow> (\<forall>c\<in>set s. py_isspace c)"
proof
  assume "strip s = []"
  then have "\<forall>c\<in>set (dropWhile py_isspace s). py_isspace c"
    by (simp add: strip_def dropWhile_eq_Nil_conv)
  then have "dropWhile py_isspace s = []" by (rule dropWhile_all_Nil)
  then show "\<forall>c\<in>set s. py_isspace c" by (simp add: dropWhile_eq_Nil_conv)
next
  assume "\<forall>c\<in>set s. py_isspace c"
  then show "strip s = []" by (auto simp: strip_def dest: set_dropWhileD)
qed

lemma text_field_blank:
  assumes "data key = None \<or> (\<exists>v. data key = Some v \<and> \<not> truthy v)
           \<or> (\<exists>s. data key = Some (JStr s) \<and> (\<forall>c\<in>set s. py_isspace c))"
  shows "text_field data key = Inr []"
  using assms
proof (elim disjE exE conjE)
  assume "data key = None"
  then show ?thesis by (simp add: text_field_def get_or_def strip_def)
next
  fix v assume "data key = Some v" "\<not> truthy v"
  then show ?thesis by (simp add: text_field_def get_or_def strip_def)
next
  fix s assume d: "data key = Some (JStr s)" and sp: "\<forall>c\<in>set s. py_isspace c"
  from sp have "strip s = []" by (simp add: strip_empty_iff)
  with d show ?thesis by (simp add: text_field_def get_or_def strip_def)
qed

text \<open>
  C4: a submission whose health identifier is missing, falsy, or a string of whitespace
  only (any code points that \<^verbatim>\<open>str.strip\<close> removes, the no-break and ideographic
  spaces included) is answered with the 400 response in both variants, and the stores
  (face files, QR files, flat file or table) are exactly what they were.
\<close>

theorem empty_identifier_rejected:
  assumes "data ''healthId'' = None \<or> (\<exists>v. data ''healthId'' = Some v \<and> \<not> truthy v)
           \<or> (\<exists>s. data ''healthId'' = Some (JStr s) \<and> (\<forall>c\<in>set s. py_isspace c))"
  shows "create_worker e data st = (BadRequest ''healthId is required'', st)
         \<and> create_worker_back e data st' = (BadRequest ''healthId is required'', st')"
proof -
  from assms have "text_field data ''healthId'' = Inr []" by (rule text_field_blank)
  then show ?thesis by (simp add: create_worker_def create_worker_back_def)
qed

theorem empty_identifier_rejected_witness:
  "create_worker example_env
       [''healthId'' \<mapsto> JStr [0xA0, 0x3000, 0x20, 0x09], ''fullName'' \<mapsto> JStr (lit ''Asha Devi'')]
       csv_start
     = (BadRequest ''healthId is required'', csv_start)
   \<and> create_worker_back example_env
       [''healthId'' \<mapsto> JStr [0xA0, 0x3000, 0x20, 0x09], ''fullName'' \<mapsto> JStr (lit ''Asha Devi'')]
       db_start
     = (BadRequest ''healthId is required'', db_start)"
proof -
  let ?d = "[''healthId'' \<mapsto> JStr [0xA0, 0x3000, 0x20, 0x09],
             ''fullName'' \<mapsto> JStr (lit ''Asha Devi'')]"
  have "\<forall>c\<in>set [0xA0, 0x3000, 0x20, 0x09]. py_isspace c" by (simp add: py_isspace_def)
  then have "\<exists>s. ?d ''healthId'' = Some (JStr s) \<and> (\<forall>c\<in>set s. py_isspace c)" by simp
  then show ?thesis
    using empty_identifier_rejected [of ?d example_env csv_start db_start]
    by blast
qed

section \<open>Overlay robustness\<close>

lemma generate_qr_image_no_face:
  assumes "face = None \<or> face = Some []
           \<or> (\<exists>fn. face = Some fn \<and> (faces st fn = None
                 \<or> (\<exists>b. faces st fn = Some b \<and> image_open e b = None)))"
  shows "generate_qr_image e content hid face st = generate_qr_image e content hid None st"
  using assms
  by (auto simp: generate_qr_image_def face_overlay_def Let_def split: sum.splits option.splits)

lemma generate_qr_image_fails_iff:
  "generate_qr_image e content hid face st = Inl err \<longleftrightarrow> make_fit e (worker_qr content) = Inl err"
  by (auto simp: generate_qr_image_def Let_def split: sum.splits option.splits)

text \<open>
  C5: when no face file name is given, or the named file does not exist, or the image
  library cannot read its bytes, the composition gives exactly the result of composing
  the same text without a face; and a composition fails with a face exactly when it
  fails without one, so no error of the overlay escapes.
\<close>

theorem overlay_failure_is_plain:
  "((face = None \<or> face = Some []
      \<or> (\<exists>fn. face = Some fn \<and> (faces st fn = None
            \<or> (\<exists>b. faces st fn = Some b \<and> image_open e b = None))))
     \<longrightarrow> generate_qr_image e content hid face st = generate_qr_image e content hid None st)
   \<and> (generate_qr_image e content hid face st = Inl err
        \<longleftrightarrow> generate_qr_image e content hid None st = Inl err)"
  using generate_qr_image_no_face [of face st e content hid]
  by (simp add: generate_qr_image_fails_iff)

theorem overlay_failure_is_plain_witness:
  "faces csv_bad_face (lit ''W1001.png'') = Some ''not an image''
   \<and> image_open example_env ''not an image'' = None
   \<and> generate_qr_image example_env (lit ''hello'') (lit ''W1001'') (Some (lit ''W1001.png'')) csv_bad_face
       = generate_qr_image example_env (lit ''hello'') (lit ''W1001'') None csv_bad_face"
proof -
  have f: "faces csv_bad_face (lit ''W1001.png'') = Some ''not an image''"
    by (simp add: csv_bad_face_def)
  have o: "image_open example_env ''not an image'' = None"
    by (simp add: example_env_def)
  from f o have "\<exists>fn. Some (lit ''W1001.png'') = Some fn \<and> (faces csv_bad_face fn = None
            \<or> (\<exists>b. faces csv_bad_face fn = Some b \<and> image_open example_env b = None))"
    by simp
  with overlay_failure_is_plain [of "Some (lit ''W1001.png'')" csv_bad_face example_env
      "lit ''hello''" "lit ''W1001''"] f o
  show ?thesis by blast
qed

section \<open>Parsing the fields\<close>

lemma text_field_other:
  "k \<noteq> k' \<Longrightarrow> text_field (data(k' := v)) k = text_field data k"
  by (simp add: text_field_def get_or_def)

lemma get_or_other:
  "k \<noteq> k' \<Longrightarrow> get_or (data(k' := v)) k d = get_or data k d"
  by (simp add: get_or_def)

lemma int_of_str_48: "int_of_str p [48] = Inr 0"
proof -
  have "int_max_str_digits p = 0 \<or> Suc 0 \<le> int_max_str_digits p" by arith
  then show ?thesis
    by (simp add: int_of_str_def to_ascii_def c_isspace_def is_digit_def decimal_value_def
        digit_val_def Let_def)
qed

lemma int_of_str_zero: "int_of_str p (lit ''0'') = Inr 0"
  by (simp add: lit_def int_of_str_48)

lemma age_field_zero:
  "v = JInt 0 \<or> v = JStr (lit ''0'') \<Longrightarrow> age_field e (data(''age'' \<mapsto> v)) = Inr None"
  by (auto simp: age_field_def get_or_def bind_err_def int_of_str_zero)

lemma age_field_omitted:
  "data ''age'' = None \<or> (\<exists>v. data ''age'' = Some v \<and> \<not> truthy v) \<Longrightarrow> age_field e data = Inr None"
  by (auto simp: age_field_def get_or_def bind_err_def)

lemma parse_fields_age_cong:
  assumes "age_field e d1 = age_field e d2" and "\<And>k. k \<noteq> ''age'' \<Longrightarrow> d1 k = d2 k"
  shows "parse_fields e d1 = parse_fields e d2"
proof -
  have t: "\<And>k. k \<noteq> ''age'' \<Longrightarrow> text_field d1 k = text_field d2 k"
    by (simp add: text_field_def get_or_def assms(2))
  have g: "get_or d1 ''registrationDate'' (JStr (today e)) = get_or d2 ''registrationDate'' (JStr (today e))"
    by (simp add: get_or_def assms(2))
  show ?thesis
    by (simp add: parse_fields_def t g assms(1))
qed

lemma parse_fields_ext_age_cong:
  assumes "age_field e d1 = age_field e d2" and "\<And>k. k \<noteq> ''age'' \<Longrightarrow> d1 k = d2 k"
  shows "parse_fields_ext e d1 = parse_fields_ext e d2"
proof -
  have t: "\<And>k. k \<noteq> ''age'' \<Longrightarrow> text_field d1 k = text_field d2 k"
    by (simp add: text_field_def get_or_def assms(2))
  have v: "vaccination_field e d1 = vaccination_field e d2"
    by (simp add: vaccination_field_def get_or_def assms(2))
  show ?thesis
    by (simp add: parse_fields_ext_def t v parse_fields_age_cong [OF assms])
qed

lemma create_worker_age_cong:
  assumes "age_field e d1 = age_field e d2" and "\<And>k. k \<noteq> ''age'' \<Longrightarrow> d1 k = d2 k"
  shows "create_worker e d1 st = create_worker e d2 st"
    and "create_worker_back e d1 db = create_worker_back e d2 db"
proof -
  have t: "text_field d1 ''healthId'' = text_field d2 ''healthId''"
    by (simp add: text_field_def get_or_def assms(2))
  have f: "\<And>hid s. store_face e hid d1 s = store_face e hid d2 s"
    by (simp add: store_face_def assms(2))
  have p: "parse_fields e d1 = parse_fields e d2" using assms by (rule parse_fields_age_cong)
  have px: "parse_fields_ext e d1 = parse_fields_ext e d2" using assms by (rule parse_fields_ext_age_cong)
  show "create_worker e d1 st = create_worker e d2 st"
    by (simp only: create_worker_def t f p)
  show "create_worker_back e d1 db = create_worker_back e d2 db"
    by (simp only: create_worker_back_def t f px)
qed

lemma parse_fields_Inr:
  assumes "parse_fields e data = Inr f"
  shows "text_field data ''fullName'' = Inr (n_full_name f)"
    and "age_field e data = Inr (n_age f)"
    and "text_field data ''gender'' = Inr (n_gender f)"
    and "text_field data ''phone'' = Inr (n_phone f)"
    and "text_field data ''address'' = Inr (n_address f)"
    and "text_field data ''nativeState'' = Inr (n_native_state f)"
    and "text_field data ''bloodGroup'' = Inr (n_blood_group f)"
    and "text_field data ''maritalStatus'' = Inr (n_marital_status f)"
    and "text_field data ''language'' = Inr (n_language f)"
    and "text_field data ''financialStatus'' = Inr (n_financial_status f)"
    and "n_registration_date f = get_or data ''registrationDate'' (JStr (today e))"
  using assms
  by (auto simp: parse_fields_def bind_err_def split: sum.splits)

lemma parse_fields_ext_Inr:
  assumes "parse_fields_ext e data = Inr g"
  shows "parse_fields e data = Inr (fields.truncate g)"
    and "text_field data ''allergies'' = Inr (n_allergies g)"
    and "text_field data ''conditions'' = Inr (n_conditions g)"
    and "text_field data ''inheritedDiseases'' = Inr (n_inherited_diseases g)"
    and "text_field data ''previousTreatments'' = Inr (n_previous_treatments g)"
    and "vaccination_field e data = Inr (n_vaccination_count g)"
  using assms
  by (auto simp: parse_fields_ext_def bind_err_def fields.defs split: sum.splits)

lemma age_field_nonzero: "age_field e data = Inr (Some n) \<Longrightarrow> n \<noteq> 0"
  by (auto simp: age_field_def bind_err_def split: sum.splits if_splits)

section \<open>The upsert of the simple variant\<close>

lemma upsert_loop_eq:
  "upsert_loop hid new rs acc ex =
     (acc @ map (\<lambda>r. if health_id r = hid then new else r) rs,
      ex \<or> (\<exists>r\<in>set rs. health_id r = hid))"
  by (induction rs arbitrary: acc ex) auto

lemma map_replace_absent:
  "\<forall>r\<in>set rs. health_id r \<noteq> hid \<Longrightarrow>
     map (\<lambda>r. if health_id r = hid then new else r) rs = rs"
  by (induction rs) auto

lemma upsert_rows_Some:
  "upsert_rows hid new (Some rs) =
     (if \<exists>r\<in>set rs. health_id r = hid
      then map (\<lambda>r. if health_id r = hid then new else r) rs
      else rs @ [new])"
  by (auto simp: upsert_rows_def upsert_loop_eq map_replace_absent)

lemma upsert_rows_None: "upsert_rows hid new None = [new]"
  by (simp add: upsert_rows_def)

lemma filter_map_replace:
  assumes "health_id new = hid"
  shows "filter (\<lambda>r. health_id r = hid) (map (\<lambda>r. if health_id r = hid then new else r) rs)
         = replicate (length (filter (\<lambda>r. health_id r = hid) rs)) new"
  using assms by (induction rs) auto

lemma filter_none: "\<not> (\<exists>r\<in>set rs. P r) \<Longrightarrow> filter P rs = []"
  by (induction rs) auto

lemma filter_upsert_same:
  assumes n: "health_id new = hid"
    and one: "length (filter (\<lambda>r. health_id r = hid) (case fl of None \<Rightarrow> [] | Some rs \<Rightarrow> rs)) \<le> 1"
  shows "filter (\<lambda>r. health_id r = hid) (upsert_rows hid new fl) = [new]"
proof (cases fl)
  case None
  then show ?thesis using n by (simp add: upsert_rows_None)
next
  case (Some rs)
  show ?thesis
  proof (cases "\<exists>r\<in>set rs. health_id r = hid")
    case True
    then have "filter (\<lambda>r. health_id r = hid) rs \<noteq> []"
      by (auto simp: filter_empty_conv)
    with one Some have "length (filter (\<lambda>r. health_id r = hid) rs) = 1"
      by (cases "filter (\<lambda>r. health_id r = hid) rs") auto
    with True Some n show ?thesis
      by (simp add: upsert_rows_Some filter_map_replace)
  next
    case False
    with Some n show ?thesis
      by (simp add: upsert_rows_Some filter_none)
  qed
qed

lemma filter_upsert_other:
  assumes "health_id new = hid" and "k \<noteq> hid"
  shows "filter (\<lambda>r. health_id r = k) (upsert_rows hid new fl)
         = filter (\<lambda>r. health_id r = k) (case fl of None \<Rightarrow> [] | Some rs \<Rightarrow> rs)"
proof (cases fl)
  case None
  then show ?thesis using assms by (simp add: upsert_rows_None)
next
  case (Some rs)
  have "filter (\<lambda>r. health_id r = k) (map (\<lambda>r. if health_id r = hid then new else r) rs)
        = filter (\<lambda>r. health_id r = k) rs"
    using assms by (induction rs) auto
  with Some assms show ?thesis by (simp add: upsert_rows_Some)
qed

lemma find_upsert:
  assumes "health_id new = hid"
  shows "find (\<lambda>r. health_id r = hid) (upsert_rows hid new fl) = Some new"
proof (cases fl)
  case None
  then show ?thesis using assms by (simp add: upsert_rows_None)
next
  case (Some rs)
  have a: "(\<exists>r\<in>set rs. health_id r = hid) \<Longrightarrow>
        find (\<lambda>r. health_id r = hid) (map (\<lambda>r. if health_id r = hid then new else r) rs) = Some new"
    using assms by (induction rs) auto
  have b: "\<not> (\<exists>r\<in>set rs. health_id r = hid) \<Longrightarrow>
        find (\<lambda>r. health_id r = hid) (rs @ [new]) = Some new"
    using assms by (induction rs) auto
  from a b Some show ?thesis by (simp add: upsert_rows_Some)
qed

lemma store_face_state:
  assumes "store_face e hid data st = (fn, st1)"
  shows "qrs st1 = qrs st \<and> assets.more st1 = assets.more st
         \<and> (fn = [] \<and> st1 = st \<or> fn = hid @ lit ''.png'' \<and> (\<exists>b. st1 = st\<lparr>faces := (faces st)(fn \<mapsto> b)\<rparr>))"
  using assms
  by (auto simp: store_face_def save_face_image_def Let_def split: option.splits json.splits if_splits)

lemma generate_qr_image_state:
  assumes "generate_qr_image e content hid face st = Inr (fn, st')"
  shows "fn = hid @ lit ''.png'' \<and> (\<exists>img. st' = st\<lparr>qrs := (qrs st)(fn \<mapsto> img)\<rparr>)"
  using assms
  by (auto simp: generate_qr_image_def Let_def split: sum.splits)

lemma create_worker_Created:
  assumes "create_worker e data st = (Created hid qu fu, st')"
  shows "\<exists>f face_fn st1 st2.
           text_field data ''healthId'' = Inr hid \<and> hid \<noteq> []
           \<and> parse_fields e data = Inr f
           \<and> store_face e hid data st = (face_fn, st1)
           \<and> generate_qr_image e (json_dumps (qr_payload hid f)) hid (or_None face_fn) st1
               = Inr (hid @ lit ''.png'', st2)
           \<and> csv_write e (csv_file st)
                 (upsert_rows hid (new_row hid f face_fn (hid @ lit ''.png'')) (csv_file st))
               = Written
           \<and> st' = st2\<lparr>csv_file := Some (upsert_rows hid (new_row hid f face_fn (hid @ lit ''.png''))
                                          (csv_file st))\<rparr>"
proof -
  from assms obtain h where h: "text_field data ''healthId'' = Inr h" and hne: "h \<noteq> []"
    by (auto simp: create_worker_def split: sum.splits if_splits)
  from assms h hne obtain f where f: "parse_fields e data = Inr f"
    by (auto simp: create_worker_def split: sum.splits)
  obtain face_fn st1 where sf: "store_face e h data st = (face_fn, st1)"
    by (cases "store_face e h data st") auto
  from assms h hne f sf obtain qr_fn st2 where
    g: "generate_qr_image e (json_dumps (qr_payload h f)) h (or_None face_fn) st1 = Inr (qr_fn, st2)"
    by (auto simp: create_worker_def split: sum.splits)
  from generate_qr_image_state [OF g] have q: "qr_fn = h @ lit ''.png''"
    and c2: "csv_file st2 = csv_file st1" by auto
  from store_face_state [OF sf] have c1: "csv_file st1 = csv_file st"
    by (auto)
  from assms h hne f sf g have r: "created h face_fn = Created hid qu fu"
    and w: "csv_write e (csv_file st2) (upsert_rows h (new_row h f face_fn qr_fn) (csv_file st2))
              = Written"
    and s: "st' = st2\<lparr>csv_file := Some (upsert_rows h (new_row h f face_fn qr_fn) (csv_file st2))\<rparr>"
    by (auto simp: create_worker_def Let_def split: write_result.splits)
  from r have "h = hid" by (simp add: created_def)
  with h hne f sf g q c1 c2 w s show ?thesis by auto
qed

section \<open>The upsert of the extended variant\<close>

lemma find_update_first:
  assumes "w_health_id w' = hid" and "find (\<lambda>w. w_health_id w = hid) rs \<noteq> None"
  shows "find (\<lambda>w. w_health_id w = hid) (update_first hid w' rs) = Some w'"
  using assms by (induction rs) auto

lemma find_append_new:
  assumes "w_health_id w' = hid" and "find (\<lambda>w. w_health_id w = hid) rs = None"
  shows "find (\<lambda>w. w_health_id w = hid) (rs @ [w']) = Some w'"
  using assms by (induction rs) (auto split: if_splits)

lemma filter_update_first:
  assumes "w_health_id w' = hid" and "length (filter (\<lambda>w. w_health_id w = hid) rs) \<le> 1"
    and "find (\<lambda>w. w_health_id w = hid) rs \<noteq> None"
  shows "filter (\<lambda>w. w_health_id w = hid) (update_first hid w' rs) = [w']"
  using assms
proof (induction rs)
  case Nil
  then show ?case by simp
next
  case (Cons r rs)
  show ?case
  proof (cases "w_health_id r = hid")
    case True
    with Cons.prems have "filter (\<lambda>w. w_health_id w = hid) rs = []" by simp
    with True Cons.prems show ?thesis by simp
  next
    case False
    with Cons show ?thesis by simp
  qed
qed

lemma filter_append_new:
  assumes "w_health_id w' = hid" and "find (\<lambda>w. w_health_id w = hid) rs = None"
  shows "filter (\<lambda>w. w_health_id w = hid) (rs @ [w']) = [w']"
  using assms by (induction rs) (auto split: if_splits)

lemma filter_update_first_other:
  assumes "w_health_id w' = hid" and "k \<noteq> hid"
  shows "filter (\<lambda>w. w_health_id w = k) (update_first hid w' rs)
         = filter (\<lambda>w. w_health_id w = k) rs"
  using assms by (induction rs) auto

lemma w_health_id_assign: "w_health_id (assign w f d a b) = w_health_id w"
  by (simp add: assign_def)

lemma find_Some_health_id:
  "find (\<lambda>w. w_health_id w = hid) rs = Some w \<Longrightarrow> w_health_id w = hid"
  by (induction rs) (auto split: if_splits)

lemma persist_Inr:
  assumes "persist e hid f face_fn qr_fn st = Inr st'"
  shows "\<exists>w d. w_health_id w = hid
           \<and> registration_datetime e (n_registration_date f) = Inr d
           \<and> fits_columns (assign w f d face_fn qr_fn)
           \<and> find (\<lambda>w. w_health_id w = hid) (workers st') = Some (assign w f d face_fn qr_fn)
           \<and> (length (filter (\<lambda>w. w_health_id w = hid) (workers st)) \<le> 1 \<longrightarrow>
                filter (\<lambda>w. w_health_id w = hid) (workers st') = [assign w f d face_fn qr_fn])
           \<and> (\<forall>k. k \<noteq> hid \<longrightarrow> filter (\<lambda>w. w_health_id w = k) (workers st')
                                  = filter (\<lambda>w. w_health_id w = k) (workers st))
           \<and> faces st' = faces st \<and> qrs st' = qrs st"
proof -
  let ?P = "\<lambda>w. w_health_id w = hid"
  from assms obtain d where d: "registration_datetime e (n_registration_date f) = Inr d"
    by (auto simp: persist_def Let_def split: sum.splits)
  show ?thesis
  proof (cases "find ?P (workers st)")
    case None
    let ?w = "DBWorker (next_id st) hid"
    let ?w' = "assign ?w f d face_fn qr_fn"
    from assms d None have fc: "fits_columns ?w'"
      and st': "st' = st\<lparr>workers := workers st @ [?w'], next_id := Suc (next_id st)\<rparr>"
      by (auto simp: persist_def Let_def split: if_splits)
    have h: "w_health_id ?w = hid" by (simp add: DBWorker_def)
    then have h': "w_health_id ?w' = hid" by (simp add: w_health_id_assign)
    have "find ?P (workers st') = Some ?w'"
      using find_append_new [OF h' None] st' by simp
    moreover have "filter ?P (workers st') = [?w']"
      using filter_append_new [OF h' None] st' by simp
    moreover have "\<forall>k. k \<noteq> hid \<longrightarrow> filter (\<lambda>w. w_health_id w = k) (workers st')
                                  = filter (\<lambda>w. w_health_id w = k) (workers st)"
      using st' h' by auto
    ultimately show ?thesis using h d fc st' by auto
  next
    case (Some w)
    let ?w' = "assign w f d face_fn qr_fn"
    from assms d Some have fc: "fits_columns ?w'"
      and st': "st' = st\<lparr>workers := update_first hid ?w' (workers st)\<rparr>"
      by (auto simp: persist_def Let_def split: if_splits)
    have h: "w_health_id w = hid" using Some by (rule find_Some_health_id)
    then have h': "w_health_id ?w' = hid" by (simp add: w_health_id_assign)
    from Some have ne: "find ?P (workers st) \<noteq> None" by simp
    have "find ?P (workers st') = Some ?w'"
      using find_update_first [OF h' ne] st' by simp
    moreover have "length (filter ?P (workers st)) \<le> 1 \<longrightarrow> filter ?P (workers st') = [?w']"
      using filter_update_first [OF h' _ ne] st' by simp
    moreover have "\<forall>k. k \<noteq> hid \<longrightarrow> filter (\<lambda>w. w_health_id w = k) (workers st')
                                  = filter (\<lambda>w. w_health_id w = k) (workers st)"
      using st' filter_update_first_other [OF h'] by simp
    ultimately show ?thesis using h d fc st' by auto
  qed
qed

lemma create_worker_back_Created:
  assumes "create_worker_back e data st = (Created hid qu fu, st')"
  shows "\<exists>f face_fn st1 st2.
           text_field data ''healthId'' = Inr hid \<and> hid \<noteq> []
           \<and> parse_fields_ext e data = Inr f
           \<and> store_face e hid data st = (face_fn, st1)
           \<and> generate_qr_image e (json_dumps (qr_payload_back hid f)) hid (or_None face_fn) st1
               = Inr (hid @ lit ''.png'', st2)
           \<and> workers st2 = workers st
           \<and> persist e hid f face_fn (hid @ lit ''.png'') st2 = Inr st'"
proof -
  from assms obtain h where h: "text_field data ''healthId'' = Inr h" and hne: "h \<noteq> []"
    by (auto simp: create_worker_back_def split: sum.splits if_splits)
  from assms h hne obtain f where f: "parse_fields_ext e data = Inr f"
    by (auto simp: create_worker_back_def split: sum.splits)
  obtain face_fn st1 where sf: "store_face e h data st = (face_fn, st1)"
    by (cases "store_face e h data st") auto
  from assms h hne f sf obtain qr_fn st2 where
    g: "generate_qr_image e (json_dumps (qr_payload_back h f)) h (or_None face_fn) st1
          = Inr (qr_fn, st2)"
    by (auto simp: create_worker_back_def split: sum.splits)
  from generate_qr_image_state [OF g] have q: "qr_fn = h @ lit ''.png''"
    and c2: "workers st2 = workers st1" by auto
  from store_face_state [OF sf] have c1: "workers st1 = workers st"
    by auto
  from assms h hne f sf g have p: "persist e h f face_fn qr_fn st2 = Inr st'"
    and r: "created h face_fn = Created hid qu fu"
    by (auto simp: create_worker_back_def split: sum.splits)
  from r have "h = hid" by (simp add: created_def)
  with h hne f sf g q c1 c2 p show ?thesis by auto
qed

section \<open>An age of zero\<close>

lemmas eval_defs = lit_def create_worker_def create_worker_back_def text_field_def get_or_def strip_def
  py_isspace_def parse_fields_def parse_fields_ext_def bind_err_def age_field_def vaccination_field_def
  store_face_def save_face_image_def generate_qr_image_def make_fit_def worker_qr_def
  example_env_def example_submission_def csv_start_def db_start_def created_def or_None_def
  json_dumps_def qr_payload_def qr_payload_back_def json_string_def json_escape_char_def
  Let_def

lemma n_age_truncate: "n_age (fields.truncate g) = n_age g"
  by (simp add: fields.defs)

lemma created_csv_age:
  assumes "create_worker e data st = (Created hid qu fu, st')"
    and "age_field e data = Inr a"
  shows "map_option age (read_worker hid st') = Some (str_age a)"
proof -
  from create_worker_Created [OF assms(1)] obtain f face_fn st2 where
    p: "parse_fields e data = Inr f"
    and s: "st' = st2\<lparr>csv_file := Some (upsert_rows hid (new_row hid f face_fn (hid @ lit ''.png''))
                                          (csv_file st))\<rparr>"
    by blast
  from parse_fields_Inr(2) [OF p] assms(2) have a: "n_age f = a" by simp
  have "health_id (new_row hid f face_fn (hid @ lit ''.png'')) = hid" by (simp add: new_row_def)
  from find_upsert [OF this] s a show ?thesis
    by (simp add: read_worker_def new_row_def)
qed

lemma created_db_age:
  assumes "create_worker_back e data st = (Created hid qu fu, st')"
    and "age_field e data = Inr a"
  shows "map_option w_age (find (\<lambda>w. w_health_id w = hid) (workers st')) = Some (age_or_None a)"
    and "map_option age (read_worker_back e hid st') = Some (str_age (age_or_None a))"
proof -
  from create_worker_back_Created [OF assms(1)] obtain f face_fn st2 where
    p: "parse_fields_ext e data = Inr f"
    and s: "persist e hid f face_fn (hid @ lit ''.png'') st2 = Inr st'"
    by blast
  from parse_fields_Inr(2) [OF parse_fields_ext_Inr(1) [OF p]] assms(2)
  have a: "n_age f = a" by (simp add: n_age_truncate)
  from persist_Inr [OF s] obtain w d where
    f: "find (\<lambda>w. w_health_id w = hid) (workers st') = Some (assign w f d face_fn (hid @ lit ''.png''))"
    by blast
  have wa: "w_age (assign w f d face_fn (hid @ lit ''.png'')) = age_or_None a"
    using a by (simp add: assign_def)
  from f wa show "map_option w_age (find (\<lambda>w. w_health_id w = hid) (workers st')) = Some (age_or_None a)"
    by simp
  have "age_or_None (age_or_None a) = age_or_None a"
    by (simp add: age_or_None_def split: option.splits)
  with f wa show "map_option age (read_worker_back e hid st') = Some (str_age (age_or_None a))"
    by (simp add: read_worker_back_def csv_row.defs)
qed

text \<open>
  C10: a submission whose age is the number 0 or the string "0" is handled exactly as
  the same submission without an age, in both variants (same response, same stores);
  and when it is accepted, the stored age is absent: the empty string in the flat file,
  NULL in the table, and the empty string in the row the extended variant reads back.
\<close>

theorem zero_age_is_absent:
  assumes "v = JInt 0 \<or> v = JStr (lit ''0'')"
  shows "create_worker e (data(''age'' \<mapsto> v)) st = create_worker e (data(''age'' := None)) st
   \<and> create_worker_back e (data(''age'' \<mapsto> v)) db = create_worker_back e (data(''age'' := None)) db
   \<and> (create_worker e (data(''age'' \<mapsto> v)) st = (Created hid qu fu, st')
        \<longrightarrow> map_option age (read_worker hid st') = Some [])
   \<and> (create_worker_back e (data(''age'' \<mapsto> v)) db = (Created hid qu fu, db')
        \<longrightarrow> map_option w_age (find (\<lambda>w. w_health_id w = hid) (workers db')) = Some None
            \<and> map_option age (read_worker_back e hid db') = Some [])"
proof -
  have z: "age_field e (data(''age'' \<mapsto> v)) = Inr None"
    using assms by (rule age_field_zero)
  have o: "age_field e (data(''age'' := None)) = Inr None"
    by (rule age_field_omitted) simp
  have k: "\<And>k. k \<noteq> ''age'' \<Longrightarrow> (data(''age'' \<mapsto> v)) k = (data(''age'' := None)) k"
    by simp
  have eq: "age_field e (data(''age'' \<mapsto> v)) = age_field e (data(''age'' := None))"
    using z o by simp
  note c = create_worker_age_cong [OF eq k]
  have a: "create_worker e (data(''age'' \<mapsto> v)) st = (Created hid qu fu, st')
        \<longrightarrow> map_option age (read_worker hid st') = Some []"
    using created_csv_age [OF _ z] by (auto simp: str_age_def)
  have b: "create_worker_back e (data(''age'' \<mapsto> v)) db = (Created hid qu fu, db')
        \<longrightarrow> map_option w_age (find (\<lambda>w. w_health_id w = hid) (workers db')) = Some None
            \<and> map_option age (read_worker_back e hid db') = Some []"
    using created_db_age [OF _ z] by (auto simp: str_age_def age_or_None_def)
  from c(1) [of st] c(2) [of db] a b show ?thesis by blast
qed

theorem zero_age_is_absent_witness:
  "create_worker example_env (example_submission(''age'' \<mapsto> JStr (lit ''0''))) csv_start
     = (Created (lit ''W1001'') (lit ''/api/workers/W1001/qr.png'') None,
        snd (create_worker example_env (example_submission(''age'' \<mapsto> JStr (lit ''0''))) csv_start))
   \<and> create_worker_back example_env (example_submission(''age'' \<mapsto> JStr (lit ''0''))) db_start
     = (Created (lit ''W1001'') (lit ''/api/workers/W1001/qr.png'') None,
        snd (create_worker_back example_env (example_submission(''age'' \<mapsto> JStr (lit ''0''))) db_start))
   \<and> map_option age (read_worker (lit ''W1001'')
        (snd (create_worker example_env (example_submission(''age'' \<mapsto> JStr (lit ''0''))) csv_start)))
      = Some []
   \<and> map_option w_age (find (\<lambda>w. w_health_id w = lit ''W1001'')
        (workers (snd (create_worker_back example_env (example_submission(''age'' \<mapsto> JStr (lit ''0'')))
           db_start))))
      = Some None"
proof -
  let ?d = "example_submission(''age'' \<mapsto> JStr (lit ''0''))"
  have 1: "fst (create_worker example_env ?d csv_start)
             = Created (lit ''W1001'') (lit ''/api/workers/W1001/qr.png'') None"
    by (simp add: eval_defs int_of_str_48)
  have 2: "fst (create_worker_back example_env ?d db_start)
             = Created (lit ''W1001'') (lit ''/api/workers/W1001/qr.png'') None"
    by (simp add: eval_defs int_of_str_48 persist_def registration_datetime_def
        fits_columns_def fits_def int32_def assign_def DBWorker_def fields.defs
        age_or_None_def)
  from 1 have 3: "create_worker example_env ?d csv_start
     = (Created (lit ''W1001'') (lit ''/api/workers/W1001/qr.png'') None,
        snd (create_worker example_env ?d csv_start))"
    by (metis prod.collapse)
  from 2 have 4: "create_worker_back example_env ?d db_start
     = (Created (lit ''W1001'') (lit ''/api/workers/W1001/qr.png'') None,
        snd (create_worker_back example_env ?d db_start))"
    by (metis prod.collapse)
  have v: "JStr (lit ''0'') = JInt 0 \<or> JStr (lit ''0'') = JStr (lit ''0'')" by simp
  note th = zero_age_is_absent [OF v, of example_env example_submission csv_start db_start
      "lit ''W1001''" "lit ''/api/workers/W1001/qr.png''" None
      "snd (create_worker example_env ?d csv_start)"
      "snd (create_worker_back example_env ?d db_start)"]
  from th 3 have a: "map_option age (read_worker (lit ''W1001'')
        (snd (create_worker example_env ?d csv_start))) = Some []"
    by blast
  from th 4 have b: "map_option w_age (find (\<lambda>w. w_health_id w = lit ''W1001'')
        (workers (snd (create_worker_back example_env ?d db_start)))) = Some None"
    by blast
  from 3 4 a b show ?thesis by blast
qed

section \<open>Age and vaccination count\<close>

text \<open>
  Some conversions of \<^verbatim>\<open>int\<close> in the example environment: a no-break space before the digits and an ideographic
  space after them are ignored, Devanagari and Arabic-Indic digits count as digits, a
  single underscore may stand between two digits; a minus between digits, two signs, a
  sign alone, letters, and a separator 0x1C beside the digits are refused.
\<close>

lemmas int_defs = int_of_str_def to_ascii_def c_isspace_def py_isspace_def is_digit_def
  example_env_def decimal_14_def decimal_starts_def decimal_value_def digit_val_def Let_def

lemma int_of_str_examples:
  "int_of_str example_env [0xA0, 49, 50] = Inr 12"
  "int_of_str example_env [49, 0x3000] = Inr 1"
  "int_of_str example_env [0x967, 0x968] = Inr 12"
  "int_of_str example_env [0x2003, 45, 0x661, 95, 0x662] = Inr (- 12)"
  "int_of_str example_env (lit ''1-2'') = Inl ValueError"
  "int_of_str example_env (lit ''--5'') = Inl ValueError"
  "int_of_str example_env (lit ''+'') = Inl ValueError"
  "int_of_str example_env (lit ''1__0'') = Inl ValueError"
  "int_of_str example_env [0x1C, 53] = Inl ValueError"
  "int_of_str example_env (lit ''abc'') = Inl ValueError"
  "int_of_str example_env (lit ''two'') = Inl ValueError"
  by (simp_all add: int_defs lit_def)

lemma age_field_Inl_parse:
  assumes "age_field e data = Inl x"
  shows "\<exists>err. parse_fields e data = Inl err \<and> parse_fields_ext e data = Inl err"
  using assms
  by (cases "text_field data ''fullName''")
     (simp_all add: parse_fields_def parse_fields_ext_def bind_err_def)

lemma vaccination_field_Inl_parse:
  assumes "vaccination_field e data = Inl x"
  shows "\<exists>err. parse_fields_ext e data = Inl err"
  using assms
  by (auto simp: parse_fields_ext_def bind_err_def split: sum.splits)

lemma age_field_str:
  assumes "data ''age'' = Some (JStr s)" and "s \<noteq> []" and "int_of_str e s = Inl ValueError"
  shows "age_field e data = Inl ValueError"
  using assms by (simp add: age_field_def get_or_def bind_err_def)

lemma vaccination_field_str:
  assumes "data ''vaccinationCount'' = Some (JStr s)" and "s \<noteq> []"
    and "int_of_str e s = Inl ValueError"
  shows "vaccination_field e data = Inl ValueError"
  using assms by (simp add: vaccination_field_def get_or_def)

lemma vaccination_field_omitted:
  "data ''vaccinationCount'' = None \<or> (\<exists>v. data ''vaccinationCount'' = Some v \<and> \<not> truthy v)
     \<Longrightarrow> vaccination_field e data = Inr 0"
  by (auto simp: vaccination_field_def get_or_def)

lemma created_db_vaccination:
  assumes "create_worker_back e data st = (Created hid qu fu, st')"
    and "vaccination_field e data = Inr n"
  shows "map_option w_vaccination_count (find (\<lambda>w. w_health_id w = hid) (workers st')) = Some n"
proof -
  from create_worker_back_Created [OF assms(1)] obtain f face_fn st2 where
    p: "parse_fields_ext e data = Inr f"
    and s: "persist e hid f face_fn (hid @ lit ''.png'') st2 = Inr st'"
    by blast
  from parse_fields_ext_Inr(6) [OF p] assms(2) have a: "n_vaccination_count f = n" by simp
  from persist_Inr [OF s] obtain w d where
    f: "find (\<lambda>w. w_health_id w = hid) (workers st') = Some (assign w f d face_fn (hid @ lit ''.png''))"
    by blast
  with a show ?thesis by (simp add: assign_def)
qed

lemma create_worker_parse_fails:
  assumes "text_field data ''healthId'' = Inr hid" and "hid \<noteq> []"
  shows "parse_fields e data = Inl err \<Longrightarrow> create_worker e data st = (ServerError err, st)"
    and "parse_fields_ext e data = Inl err \<Longrightarrow> create_worker_back e data db = (ServerError err, db)"
  using assms by (simp_all add: create_worker_def create_worker_back_def)

text \<open>
  C7, as stated, fails: an age or a vaccination count that \<^verbatim>\<open>int\<close> does not accept
  makes it raise, the handler answers 500, and nothing is stored; and a negative
  integer is accepted as it is.
\<close>

theorem bad_age_fails_counterexample:
  "create_worker example_env (example_submission(''age'' \<mapsto> JStr (lit ''abc''))) csv_start
     = (ServerError ValueError, csv_start)
   \<and> create_worker_back example_env (example_submission(''age'' \<mapsto> JStr (lit ''abc''))) db_start
     = (ServerError ValueError, db_start)
   \<and> create_worker_back example_env (example_submission(''vaccinationCount'' \<mapsto> JStr (lit ''two'')))
        db_start
     = (ServerError ValueError, db_start)
   \<and> age_field example_env (example_submission(''age'' \<mapsto> JInt (- 5))) = Inr (Some (- 5))"
proof -
  have a: "int_of_str example_env [97, 98, 99] = Inl ValueError"
    using int_of_str_examples(10) by (simp add: lit_def)
  have t: "int_of_str example_env [116, 119, 111] = Inl ValueError"
    using int_of_str_examples(11) by (simp add: lit_def)
  show ?thesis
    by (simp add: create_worker_def create_worker_back_def text_field_def get_or_def strip_def
        py_isspace_def parse_fields_def parse_fields_ext_def bind_err_def age_field_def
        vaccination_field_def example_submission_def lit_def a t)
qed

text \<open>
  C7 (amended): age and vaccination count are converted with \<^verbatim>\<open>int\<close>. A value that is
  missing or falsy (null, empty string, zero, false) gives age absent and vaccination
  count zero, which is what an accepted submission then stores; an integer is taken as
  it is, negative values included, and so is the value of a string that \<^verbatim>\<open>int\<close>
  accepts; a non-empty string that \<^verbatim>\<open>int\<close> refuses makes the request fail with a 500
  response, the stores being left as they were.
\<close>

theorem age_and_vaccination_parsing:
  assumes om_age: "data ''age'' = None \<or> (\<exists>v. data ''age'' = Some v \<and> \<not> truthy v)"
    and om_vac: "data ''vaccinationCount'' = None
                 \<or> (\<exists>v. data ''vaccinationCount'' = Some v \<and> \<not> truthy v)"
    and bad: "bad ''age'' = Some (JStr s) \<or> bad ''vaccinationCount'' = Some (JStr s)"
    and non_numeric: "s \<noteq> []" "int_of_str e s = Inl ValueError"
    and ident: "text_field bad ''healthId'' = Inr hid" "hid \<noteq> []"
  shows "age_field e data = Inr None \<and> vaccination_field e data = Inr 0
   \<and> age_field e (data(''age'' \<mapsto> JInt n)) = Inr (if n = 0 then None else Some n)
   \<and> vaccination_field e (data(''vaccinationCount'' \<mapsto> JInt n)) = Inr n
   \<and> age_field e (data(''age'' \<mapsto> JStr t))
       = (if t = [] then Inr None
          else case int_of_str e t of
                 Inl err \<Rightarrow> Inl err
               | Inr m \<Rightarrow> Inr (if m = 0 then None else Some m))
   \<and> vaccination_field e (data(''vaccinationCount'' \<mapsto> JStr t))
       = (if t = [] then Inr 0 else int_of_str e t)
   \<and> (create_worker e data st = (Created h qu fu, st')
        \<longrightarrow> map_option age (read_worker h st') = Some [])
   \<and> (create_worker_back e data db = (Created h qu fu, db')
        \<longrightarrow> map_option w_age (find (\<lambda>w. w_health_id w = h) (workers db')) = Some None
            \<and> map_option w_vaccination_count (find (\<lambda>w. w_health_id w = h) (workers db'))
                = Some 0)
   \<and> (\<exists>err. create_worker_back e bad db = (ServerError err, db))
   \<and> (bad ''age'' = Some (JStr s)
        \<longrightarrow> (\<exists>err. create_worker e bad st = (ServerError err, st)))"
proof -
  have a: "age_field e data = Inr None" using om_age by (rule age_field_omitted)
  have v: "vaccination_field e data = Inr 0" using om_vac by (rule vaccination_field_omitted)
  have i: "age_field e (data(''age'' \<mapsto> JInt n)) = Inr (if n = 0 then None else Some n)"
    by (simp add: age_field_def get_or_def bind_err_def)
  have j: "vaccination_field e (data(''vaccinationCount'' \<mapsto> JInt n)) = Inr n"
    by (simp add: vaccination_field_def get_or_def)
  have k: "age_field e (data(''age'' \<mapsto> JStr t))
       = (if t = [] then Inr None
          else case int_of_str e t of
                 Inl err \<Rightarrow> Inl err
               | Inr m \<Rightarrow> Inr (if m = 0 then None else Some m))"
    by (simp add: age_field_def get_or_def bind_err_def)
  have l: "vaccination_field e (data(''vaccinationCount'' \<mapsto> JStr t))
       = (if t = [] then Inr 0 else int_of_str e t)"
    by (simp add: vaccination_field_def get_or_def)
  have c1: "create_worker e data st = (Created h qu fu, st')
        \<longrightarrow> map_option age (read_worker h st') = Some []"
    using created_csv_age [OF _ a] by (auto simp: str_age_def)
  have c2: "create_worker_back e data db = (Created h qu fu, db')
        \<longrightarrow> map_option w_age (find (\<lambda>w. w_health_id w = h) (workers db')) = Some None
            \<and> map_option w_vaccination_count (find (\<lambda>w. w_health_id w = h) (workers db'))
                = Some 0"
    using created_db_age(1) [OF _ a] created_db_vaccination [OF _ v]
    by (auto simp: age_or_None_def)
  note ne = non_numeric(1) and iv = non_numeric(2)
  have b1: "bad ''age'' = Some (JStr s)
        \<longrightarrow> (\<exists>err. create_worker e bad st = (ServerError err, st))"
  proof
    assume "bad ''age'' = Some (JStr s)"
    then have "age_field e bad = Inl ValueError" using ne iv by (rule age_field_str)
    from age_field_Inl_parse [OF this] obtain err where "parse_fields e bad = Inl err"
      by blast
    from create_worker_parse_fails(1) [OF ident this]
    show "\<exists>err. create_worker e bad st = (ServerError err, st)" by blast
  qed
  have b2: "\<exists>err. create_worker_back e bad db = (ServerError err, db)"
    using bad
  proof
    assume "bad ''age'' = Some (JStr s)"
    then have "age_field e bad = Inl ValueError" using ne iv by (rule age_field_str)
    from age_field_Inl_parse [OF this] obtain err where "parse_fields_ext e bad = Inl err"
      by blast
    from create_worker_parse_fails(2) [OF ident this] show ?thesis by blast
  next
    assume "bad ''vaccinationCount'' = Some (JStr s)"
    then have "vaccination_field e bad = Inl ValueError" using ne iv
      by (rule vaccination_field_str)
    from vaccination_field_Inl_parse [OF this] obtain err where
      "parse_fields_ext e bad = Inl err" by blast
    from create_worker_parse_fails(2) [OF ident this] show ?thesis by blast
  qed
  from a v i j k l c1 c2 b1 b2 show ?thesis by blast
qed

theorem age_and_vaccination_parsing_witness:
  "example_submission ''age'' = None \<and> example_submission ''vaccinationCount'' = None
   \<and> int_of_str example_env (lit ''1-2'') = Inl ValueError
   \<and> text_field (example_submission(''age'' \<mapsto> JStr (lit ''1-2''))) ''healthId'' = Inr (lit ''W1001'')
   \<and> age_field example_env example_submission = Inr None \<and> vaccination_field example_env example_submission = Inr 0
   \<and> age_field example_env (example_submission(''age'' \<mapsto> JInt (- 5))) = Inr (Some (- 5))
   \<and> age_field example_env (example_submission(''age'' \<mapsto> JStr [0xA0, 49, 50])) = Inr (Some 12)
   \<and> map_option age (read_worker (lit ''W1001'')
        (snd (create_worker example_env example_submission csv_start))) = Some []
   \<and> map_option w_vaccination_count (find (\<lambda>w. w_health_id w = lit ''W1001'')
        (workers (snd (create_worker_back example_env example_submission db_start)))) = Some 0
   \<and> snd (create_worker example_env (example_submission(''age'' \<mapsto> JStr (lit ''1-2''))) csv_start)
       = csv_start
   \<and> snd (create_worker_back example_env (example_submission(''age'' \<mapsto> JStr (lit ''1-2''))) db_start)
       = db_start"
proof -
  let ?bad = "example_submission(''age'' \<mapsto> JStr (lit ''1-2''))"
  have h1: "example_submission ''age'' = None" by (simp add: example_submission_def)
  have h2: "example_submission ''vaccinationCount'' = None"
    by (simp add: example_submission_def)
  have h3: "?bad ''age'' = Some (JStr (lit ''1-2''))" by simp
  have h4: "lit ''1-2'' \<noteq> []" by (simp add: lit_def)
  have h5: "int_of_str example_env (lit ''1-2'') = Inl ValueError" by (rule int_of_str_examples(5))
  have h6: "text_field ?bad ''healthId'' = Inr (lit ''W1001'')"
    by (simp add: text_field_def get_or_def strip_def py_isspace_def example_submission_def lit_def)
  have h7: "lit ''W1001'' \<noteq> []" by (simp add: lit_def)
  have 1: "fst (create_worker example_env example_submission csv_start)
             = Created (lit ''W1001'') (lit ''/api/workers/W1001/qr.png'') None"
    by (simp add: eval_defs)
  have 2: "fst (create_worker_back example_env example_submission db_start)
             = Created (lit ''W1001'') (lit ''/api/workers/W1001/qr.png'') None"
    by (simp add: eval_defs persist_def registration_datetime_def
        fits_columns_def fits_def int32_def assign_def DBWorker_def fields.defs age_or_None_def)
  from 1 have 3: "create_worker example_env example_submission csv_start
     = (Created (lit ''W1001'') (lit ''/api/workers/W1001/qr.png'') None,
        snd (create_worker example_env example_submission csv_start))"
    by (metis prod.collapse)
  from 2 have 4: "create_worker_back example_env example_submission db_start
     = (Created (lit ''W1001'') (lit ''/api/workers/W1001/qr.png'') None,
        snd (create_worker_back example_env example_submission db_start))"
    by (metis prod.collapse)
  note th = age_and_vaccination_parsing [where data = example_submission and bad = ?bad
      and s = "lit ''1-2''" and hid = "lit ''W1001''" and n = "- 5" and t = "[0xA0, 49, 50]"
      and e = example_env and st = csv_start and h = "lit ''W1001''"
      and qu = "lit ''/api/workers/W1001/qr.png''" and fu = None
      and st' = "snd (create_worker example_env example_submission csv_start)"
      and db = db_start
      and db' = "snd (create_worker_back example_env example_submission db_start)",
      OF disjI1 [OF h1] disjI1 [OF h2] disjI1 [OF h3] h4 h5 h6 h7]
  from th have a0: "age_field example_env example_submission = Inr None"
    and v0: "vaccination_field example_env example_submission = Inr 0"
    by blast+
  from th have "age_field example_env (example_submission(''age'' \<mapsto> JInt (- 5)))
                  = Inr (if (- 5 :: int) = 0 then None else Some (- 5))"
    by blast
  then have e: "age_field example_env (example_submission(''age'' \<mapsto> JInt (- 5))) = Inr (Some (- 5))"
    by simp
  from th have "age_field example_env (example_submission(''age'' \<mapsto> JStr [0xA0, 49, 50]))
       = (if [0xA0, 49, 50] = ([] :: nat list) then Inr None
          else case int_of_str example_env [0xA0, 49, 50] of
                 Inl err \<Rightarrow> Inl err
               | Inr m \<Rightarrow> Inr (if m = 0 then None else Some m))"
    by blast
  then have f: "age_field example_env (example_submission(''age'' \<mapsto> JStr [0xA0, 49, 50])) = Inr (Some 12)"
    by (simp add: int_of_str_examples(1))
  from th 3 have a: "map_option age (read_worker (lit ''W1001'')
        (snd (create_worker example_env example_submission csv_start))) = Some []"
    by blast
  from th 4 have b: "map_option w_vaccination_count (find (\<lambda>w. w_health_id w = lit ''W1001'')
        (workers (snd (create_worker_back example_env example_submission db_start)))) = Some 0"
    by blast
  from th h3 obtain err1 err2 where
    "create_worker example_env ?bad csv_start = (ServerError err1, csv_start)"
    "create_worker_back example_env ?bad db_start = (ServerError err2, db_start)"
    by blast
  then have c: "snd (create_worker example_env ?bad csv_start) = csv_start"
    and d: "snd (create_worker_back example_env ?bad db_start) = db_start"
    by simp_all
  from h1 h2 h5 h6 a0 v0 e f a b c d show ?thesis by blast
qed

section \<open>The text of the worker QR\<close>

lemma generate_qr_image_text:
  assumes "generate_qr_image e content hid face st = Inr (fn, st')"
  shows "map_option (qr_data \<circ> symbol) (qrs st' (hid @ lit ''.png'')) = Some content"
proof -
  from generate_qr_image_symbol [OF assms] obtain img qr where
    i: "qrs st' fn = Some img" and f: "make_fit e (worker_qr content) = Inr qr"
    and s: "symbol img = qr" and n: "fn = hid @ lit ''.png''"
    by blast
  from make_fit_keeps [OF f] have "qr_data qr = content" by (simp add: worker_qr_def)
  with i s n show ?thesis by simp
qed

lemma n_truncate:
  "n_full_name (fields.truncate g) = n_full_name g"
  "n_gender (fields.truncate g) = n_gender g"
  "n_address (fields.truncate g) = n_address g"
  "n_native_state (fields.truncate g) = n_native_state g"
  "n_registration_date (fields.truncate g) = n_registration_date g"
  by (simp_all add: fields.defs)

lemmas eval_back = eval_defs persist_def registration_datetime_def
        fits_columns_def fits_def int32_def assign_def DBWorker_def fields.defs age_or_None_def

text \<open>
  C3, as stated, fails on the extended variant: its QR text has five keys, and the
  address, blood group, marital status and financial status are not in it.
\<close>

theorem qr_text_fields_counterexample:
  "map_option (qr_data \<circ> symbol)
     (qrs (snd (create_worker_back example_env example_submission db_start)) (lit ''W1001.png''))
     = Some (json_dumps
         [(''healthId'', JStr (lit ''W1001'')), (''fullName'', JStr (lit ''Asha Devi'')),
          (''gender'', JStr (lit ''Female'')), (''nativeState'', JStr (lit ''Bihar'')),
          (''registrationDate'', JStr (lit ''2024-01-15''))])
   \<and> map_option (qr_data \<circ> symbol)
     (qrs (snd (create_worker_back example_env example_submission db_start)) (lit ''W1001.png''))
     \<noteq> Some (json_dumps
         [(''healthId'', JStr (lit ''W1001'')), (''fullName'', JStr (lit ''Asha Devi'')),
          (''gender'', JStr (lit ''Female'')), (''address'', JStr (lit ''Patna'')),
          (''nativeState'', JStr (lit ''Bihar'')), (''bloodGroup'', JStr []),
          (''maritalStatus'', JStr []), (''financialStatus'', JStr []),
          (''registrationDate'', JStr (lit ''2024-01-15''))])"
  by (simp add: eval_back symbol_make_image)

text \<open>
  C3 (amended): after an accepted registration the text of the stored QR symbol is the
  JSON object of a fixed list of normalised fields: identifier, name, gender, address,
  native state, blood group, marital status, financial status and registration date in
  the simple variant; identifier, name, gender, native state and registration date in
  the extended variant.
\<close>

theorem qr_text_fields:
  "(create_worker e data st = (Created hid qu fu, st') \<longrightarrow>
      (\<exists>name g a ns bg ms fs.
         text_field data ''healthId'' = Inr hid
         \<and> text_field data ''fullName'' = Inr name \<and> text_field data ''gender'' = Inr g
         \<and> text_field data ''address'' = Inr a \<and> text_field data ''nativeState'' = Inr ns
         \<and> text_field data ''bloodGroup'' = Inr bg \<and> text_field data ''maritalStatus'' = Inr ms
         \<and> text_field data ''financialStatus'' = Inr fs
         \<and> map_option (qr_data \<circ> symbol) (qrs st' (hid @ lit ''.png''))
             = Some (json_dumps
                 [(''healthId'', JStr hid), (''fullName'', JStr name), (''gender'', JStr g),
                  (''address'', JStr a), (''nativeState'', JStr ns), (''bloodGroup'', JStr bg),
                  (''maritalStatus'', JStr ms), (''financialStatus'', JStr fs),
                  (''registrationDate'',
                     get_or data ''registrationDate'' (JStr (today e)))])))
   \<and> (create_worker_back e data db = (Created hid qu fu, db') \<longrightarrow>
        (\<exists>name g ns.
           text_field data ''healthId'' = Inr hid
           \<and> text_field data ''fullName'' = Inr name \<and> text_field data ''gender'' = Inr g
           \<and> text_field data ''nativeState'' = Inr ns
           \<and> map_option (qr_data \<circ> symbol) (qrs db' (hid @ lit ''.png''))
               = Some (json_dumps
                   [(''healthId'', JStr hid), (''fullName'', JStr name), (''gender'', JStr g),
                    (''nativeState'', JStr ns),
                    (''registrationDate'',
                       get_or data ''registrationDate'' (JStr (today e)))])))"
proof (intro conjI impI)
  assume c: "create_worker e data st = (Created hid qu fu, st')"
  from create_worker_Created [OF c] obtain f face_fn st1 st2 where
    h: "text_field data ''healthId'' = Inr hid"
    and p: "parse_fields e data = Inr f"
    and g: "generate_qr_image e (json_dumps (qr_payload hid f)) hid (or_None face_fn) st1
               = Inr (hid @ lit ''.png'', st2)"
    and s: "st' = st2\<lparr>csv_file := Some (upsert_rows hid (new_row hid f face_fn (hid @ lit ''.png''))
                                          (csv_file st))\<rparr>"
    by blast
  from generate_qr_image_text [OF g] s
  have "map_option (qr_data \<circ> symbol) (qrs st' (hid @ lit ''.png''))
          = Some (json_dumps (qr_payload hid f))" by simp
  with h parse_fields_Inr [OF p]
  show "\<exists>name g a ns bg ms fs.
         text_field data ''healthId'' = Inr hid
         \<and> text_field data ''fullName'' = Inr name \<and> text_field data ''gender'' = Inr g
         \<and> text_field data ''address'' = Inr a \<and> text_field data ''nativeState'' = Inr ns
         \<and> text_field data ''bloodGroup'' = Inr bg \<and> text_field data ''maritalStatus'' = Inr ms
         \<and> text_field data ''financialStatus'' = Inr fs
         \<and> map_option (qr_data \<circ> symbol) (qrs st' (hid @ lit ''.png''))
             = Some (json_dumps
                 [(''healthId'', JStr hid), (''fullName'', JStr name), (''gender'', JStr g),
                  (''address'', JStr a), (''nativeState'', JStr ns), (''bloodGroup'', JStr bg),
                  (''maritalStatus'', JStr ms), (''financialStatus'', JStr fs),
                  (''registrationDate'',
                     get_or data ''registrationDate'' (JStr (today e)))])"
    by (simp add: qr_payload_def)
next
  assume c: "create_worker_back e data db = (Created hid qu fu, db')"
  from create_worker_back_Created [OF c] obtain f face_fn st1 st2 where
    h: "text_field data ''healthId'' = Inr hid"
    and p: "parse_fields_ext e data = Inr f"
    and g: "generate_qr_image e (json_dumps (qr_payload_back hid f)) hid (or_None face_fn) st1
               = Inr (hid @ lit ''.png'', st2)"
    and s: "persist e hid f face_fn (hid @ lit ''.png'') st2 = Inr db'"
    by blast
  from persist_Inr [OF s] have "qrs db' = qrs st2" by blast
  with generate_qr_image_text [OF g]
  have "map_option (qr_data \<circ> symbol) (qrs db' (hid @ lit ''.png''))
          = Some (json_dumps (qr_payload_back hid f))" by simp
  with h parse_fields_Inr [OF parse_fields_ext_Inr(1) [OF p]]
  show "\<exists>name g ns.
           text_field data ''healthId'' = Inr hid
           \<and> text_field data ''fullName'' = Inr name \<and> text_field data ''gender'' = Inr g
           \<and> text_field data ''nativeState'' = Inr ns
           \<and> map_option (qr_data \<circ> symbol) (qrs db' (hid @ lit ''.png''))
               = Some (json_dumps
                   [(''healthId'', JStr hid), (''fullName'', JStr name), (''gender'', JStr g),
                    (''nativeState'', JStr ns),
                    (''registrationDate'',
                       get_or data ''registrationDate'' (JStr (today e)))])"
    by (simp add: qr_payload_back_def n_truncate)
qed

theorem qr_text_fields_witness:
  "create_worker example_env example_submission csv_start
     = (Created (lit ''W1001'') (lit ''/api/workers/W1001/qr.png'') None,
        snd (create_worker example_env example_submission csv_start))
   \<and> create_worker_back example_env example_submission db_start
     = (Created (lit ''W1001'') (lit ''/api/workers/W1001/qr.png'') None,
        snd (create_worker_back example_env example_submission db_start))
   \<and> map_option (qr_data \<circ> symbol)
        (qrs (snd (create_worker example_env example_submission csv_start)) (lit ''W1001.png''))
      = Some (json_dumps
         [(''healthId'', JStr (lit ''W1001'')), (''fullName'', JStr (lit ''Asha Devi'')),
          (''gender'', JStr (lit ''Female'')), (''address'', JStr (lit ''Patna'')),
          (''nativeState'', JStr (lit ''Bihar'')), (''bloodGroup'', JStr []),
          (''maritalStatus'', JStr []), (''financialStatus'', JStr []),
          (''registrationDate'', JStr (lit ''2024-01-15''))])
   \<and> map_option (qr_data \<circ> symbol)
        (qrs (snd (create_worker_back example_env example_submission db_start)) (lit ''W1001.png''))
      = Some (json_dumps
         [(''healthId'', JStr (lit ''W1001'')), (''fullName'', JStr (lit ''Asha Devi'')),
          (''gender'', JStr (lit ''Female'')), (''nativeState'', JStr (lit ''Bihar'')),
          (''registrationDate'', JStr (lit ''2024-01-15''))])"
proof -
  let ?st = "snd (create_worker example_env example_submission csv_start)"
  let ?db = "snd (create_worker_back example_env example_submission db_start)"
  have 1: "fst (create_worker example_env example_submission csv_start)
             = Created (lit ''W1001'') (lit ''/api/workers/W1001/qr.png'') None"
    by (simp add: eval_defs)
  have 2: "fst (create_worker_back example_env example_submission db_start)
             = Created (lit ''W1001'') (lit ''/api/workers/W1001/qr.png'') None"
    by (simp add: eval_back)
  from 1 have 3: "create_worker example_env example_submission csv_start
     = (Created (lit ''W1001'') (lit ''/api/workers/W1001/qr.png'') None, ?st)"
    by (metis prod.collapse)
  from 2 have 4: "create_worker_back example_env example_submission db_start
     = (Created (lit ''W1001'') (lit ''/api/workers/W1001/qr.png'') None, ?db)"
    by (metis prod.collapse)
  have tf: "text_field example_submission ''fullName'' = Inr (lit ''Asha Devi'')"
    "text_field example_submission ''gender'' = Inr (lit ''Female'')"
    "text_field example_submission ''address'' = Inr (lit ''Patna'')"
    "text_field example_submission ''nativeState'' = Inr (lit ''Bihar'')"
    "text_field example_submission ''bloodGroup'' = Inr []"
    "text_field example_submission ''maritalStatus'' = Inr []"
    "text_field example_submission ''financialStatus'' = Inr []"
    "get_or example_submission ''registrationDate'' (JStr (today example_env))
       = JStr (lit ''2024-01-15'')"
    by (simp_all add: text_field_def get_or_def strip_def py_isspace_def example_submission_def
        example_env_def lit_def)
  note th = qr_text_fields [of example_env example_submission csv_start "lit ''W1001''"
      "lit ''/api/workers/W1001/qr.png''" None ?st db_start ?db]
  from th 3 obtain name g a ns bg ms fs where
    "text_field example_submission ''fullName'' = Inr name"
    "text_field example_submission ''gender'' = Inr g"
    "text_field example_submission ''address'' = Inr a"
    "text_field example_submission ''nativeState'' = Inr ns"
    "text_field example_submission ''bloodGroup'' = Inr bg"
    "text_field example_submission ''maritalStatus'' = Inr ms"
    "text_field example_submission ''financialStatus'' = Inr fs"
    "map_option (qr_data \<circ> symbol) (qrs ?st (lit ''W1001'' @ lit ''.png''))
       = Some (json_dumps
           [(''healthId'', JStr (lit ''W1001'')), (''fullName'', JStr name), (''gender'', JStr g),
            (''address'', JStr a), (''nativeState'', JStr ns), (''bloodGroup'', JStr bg),
            (''maritalStatus'', JStr ms), (''financialStatus'', JStr fs),
            (''registrationDate'',
               get_or example_submission ''registrationDate'' (JStr (today example_env)))])"
    by blast
  with tf have a: "map_option (qr_data \<circ> symbol) (qrs ?st (lit ''W1001.png''))
      = Some (json_dumps
         [(''healthId'', JStr (lit ''W1001'')), (''fullName'', JStr (lit ''Asha Devi'')),
          (''gender'', JStr (lit ''Female'')), (''address'', JStr (lit ''Patna'')),
          (''nativeState'', JStr (lit ''Bihar'')), (''bloodGroup'', JStr []),
          (''maritalStatus'', JStr []), (''financialStatus'', JStr []),
          (''registrationDate'', JStr (lit ''2024-01-15''))])"
    by (simp add: lit_def)
  from th 4 obtain name g ns where
    "text_field example_submission ''fullName'' = Inr name"
    "text_field example_submission ''gender'' = Inr g"
    "text_field example_submission ''nativeState'' = Inr ns"
    "map_option (qr_data \<circ> symbol) (qrs ?db (lit ''W1001'' @ lit ''.png''))
       = Some (json_dumps
           [(''healthId'', JStr (lit ''W1001'')), (''fullName'', JStr name), (''gender'', JStr g),
            (''nativeState'', JStr ns),
            (''registrationDate'',
               get_or example_submission ''registrationDate'' (JStr (today example_env)))])"
    by blast
  with tf have b: "map_option (qr_data \<circ> symbol) (qrs ?db (lit ''W1001.png''))
      = Some (json_dumps
         [(''healthId'', JStr (lit ''W1001'')), (''fullName'', JStr (lit ''Asha Devi'')),
          (''gender'', JStr (lit ''Female'')), (''nativeState'', JStr (lit ''Bihar'')),
          (''registrationDate'', JStr (lit ''2024-01-15''))])"
    by (simp add: lit_def)
  from 3 4 a b show ?thesis by blast
qed

section \<open>The face thumbnail\<close>

lemma thumbnail_fit: "w \<le> x \<and> h \<le> y \<Longrightarrow> thumbnail (w, h) (x, y) = Some (w, h)"
  by (simp add: thumbnail_def)

lemma thumbnail_by_height:
  assumes "\<not> (w \<le> x \<and> h \<le> y)" "0 < h" "0 < y" "w * y \<le> x * h"
    and "thumbnail (w, h) (x, y) = Some (tw, th)"
  shows "th = y \<and> (tw = max ((y * w) div h) 1 \<or> tw = max ((y * w + h - 1) div h) 1)"
proof -
  have nz: "\<not> (h = 0 \<or> y = 0)" using assms(2,3) by simp
  have "thumbnail (w, h) (x, y) =
     Some (max (if \<bar>int (w * y) - int ((y * w) div h * h)\<bar>
                    \<le> \<bar>int (w * y) - int ((y * w + h - 1) div h * h)\<bar>
                then (y * w) div h else (y * w + h - 1) div h) 1, y)"
    unfolding thumbnail_def Let_def fst_conv snd_conv
    by (simp only: assms(1) nz assms(4) if_False if_True)
  with assms(5) show ?thesis by (auto split: if_splits)
qed

lemma thumbnail_by_width:
  assumes "\<not> (w \<le> x \<and> h \<le> y)" "0 < h" "0 < y" "\<not> w * y \<le> x * h"
    and "thumbnail (w, h) (x, y) = Some (tw, th)"
  shows "tw = x \<and> (th = 1 \<or> th = max ((x * h) div w) 1 \<or> th = max ((x * h + w - 1) div w) 1)"
proof -
  have nz: "\<not> (h = 0 \<or> y = 0)" using assms(2,3) by simp
  have "thumbnail (w, h) (x, y) =
     Some (x, max (if x * h div w = 0 then 0
                   else if \<bar>int (w * (x * h div w)) - int (x * h)\<bar> * int ((x * h + w - 1) div w)
                           \<le> \<bar>int (w * ((x * h + w - 1) div w)) - int (x * h)\<bar> * int (x * h div w)
                   then x * h div w else (x * h + w - 1) div w) 1)"
    unfolding thumbnail_def Let_def fst_conv snd_conv
    by (simp only: assms(1) nz assms(4) if_False if_True)
  with assms(5) show ?thesis by (auto split: if_splits)
qed

lemma ceil_div_le:
  fixes a b d :: nat
  assumes "0 < d" and "a \<le> b * d"
  shows "(a + d - 1) div d \<le> b"
proof -
  from assms have "a + d - 1 < Suc b * d" by simp
  then have "(a + d - 1) div d < Suc b" by (rule less_mult_imp_div_less)
  then show ?thesis by simp
qed

lemma floor_div_le:
  fixes a b d :: nat
  assumes "a \<le> b * d"
  shows "a div d \<le> b"
proof (cases "d = 0")
  case True
  then show ?thesis by simp
next
  case False
  have "a div d \<le> (b * d) div d" using assms by (rule div_le_mono)
  with False show ?thesis by simp
qed

lemma thumbnail_bounds:
  assumes t: "thumbnail (w, h) (x, y) = Some (tw, th)"
    and pos: "0 < w" "0 < h" "0 < x" "0 < y"
  shows "tw \<le> x \<and> th \<le> y \<and> tw \<le> w \<and> th \<le> h \<and> 0 < tw \<and> 0 < th
         \<and> (w \<le> x \<and> h \<le> y \<longrightarrow> tw = w \<and> th = h)
         \<and> (\<not> (w \<le> x \<and> h \<le> y) \<longrightarrow> tw = x \<or> th = y)"
proof (cases "w \<le> x \<and> h \<le> y")
  case True
  with t thumbnail_fit [OF True] pos show ?thesis by simp
next
  case nofit: False
  show ?thesis
  proof (cases "w * y \<le> x * h")
    case True
    have yh: "y < h"
    proof (rule ccontr)
      assume "\<not> y < h"
      then have hy: "h \<le> y" by simp
      with nofit have "x < w" by simp
      then have "x * h < w * h" using pos(2) by simp
      also have "w * h \<le> w * y" using hy by simp
      finally show False using True by simp
    qed
    have a1: "y * w \<le> x * h" using True by (simp only: mult.commute [of y w])
    from yh have "y * w \<le> h * w" by simp
    then have a2: "y * w \<le> w * h" by (simp only: mult.commute [of h w])
    have cx: "(y * w + h - 1) div h \<le> x" using pos(2) a1 by (rule ceil_div_le)
    have cw: "(y * w + h - 1) div h \<le> w" using pos(2) a2 by (rule ceil_div_le)
    have fx: "(y * w) div h \<le> x" using a1 by (rule floor_div_le)
    have fw: "(y * w) div h \<le> w" using a2 by (rule floor_div_le)
    from thumbnail_by_height [OF nofit pos(2) pos(4) True t]
    have th: "th = y"
      and tw: "tw = max ((y * w) div h) 1 \<or> tw = max ((y * w + h - 1) div h) 1"
      by simp_all
    from tw cx cw fx fw pos have "tw \<le> x" "tw \<le> w" "0 < tw" by auto
    with th yh pos nofit show ?thesis by simp
  next
    case False
    then have lt: "x * h < w * y" by simp
    have xw: "x < w"
    proof (rule ccontr)
      assume "\<not> x < w"
      then have wx: "w \<le> x" by simp
      with nofit have yh: "y < h" by simp
      have "w * y \<le> x * y" using wx by (rule mult_le_mono1)
      also have "x * y < x * h" using yh pos(3) by simp
      also have "x * h < w * y" by (rule lt)
      finally show False .
    qed
    from lt have "x * h \<le> w * y" by simp
    then have a1: "x * h \<le> y * w" by (simp only: mult.commute [of w y])
    from xw have "x * h \<le> w * h" by simp
    then have a2: "x * h \<le> h * w" by (simp only: mult.commute [of w h])
    have cy: "(x * h + w - 1) div w \<le> y" using pos(1) a1 by (rule ceil_div_le)
    have ch: "(x * h + w - 1) div w \<le> h" using pos(1) a2 by (rule ceil_div_le)
    have fy: "(x * h) div w \<le> y" using a1 by (rule floor_div_le)
    have fh: "(x * h) div w \<le> h" using a2 by (rule floor_div_le)
    from thumbnail_by_width [OF nofit pos(2) pos(4) False t]
    have tw: "tw = x"
      and th: "th = 1 \<or> th = max ((x * h) div w) 1 \<or> th = max ((x * h + w - 1) div w) 1"
      by simp_all
    from th cy ch fy fh pos have "th \<le> y" "th \<le> h" "0 < th" by auto
    with tw xw pos nofit show ?thesis by simp
  qed
qed

lemma thumbnail_total:
  assumes "0 < h" and "0 < y"
  shows "\<exists>t. thumbnail (w, h) (x, y) = Some t"
  using assms by (simp add: thumbnail_def Let_def)

lemma face_overlay_thumb:
  assumes o: "image_open e bytes = Some (fw, fh)" and pos: "0 < fw" "0 < fh"
  shows "\<exists>ov. face_overlay e qsize bytes = Some ov
           \<and> thumbnail (fw, fh) (thumb_size qsize, thumb_size qsize) = Some (thumb ov)"
proof -
  have "0 < thumb_size qsize" by (simp add: thumb_size_def)
  with pos(2) obtain t where
    t: "thumbnail (fw, fh) (thumb_size qsize, thumb_size qsize) = Some t"
    using thumbnail_total by blast
  with o show ?thesis by (simp add: face_overlay_def Let_def)
qed

lemma generate_qr_image_pasted:
  assumes f: "faces st fname = Some bytes" and ne: "fname \<noteq> []"
    and g: "generate_qr_image e content hid (Some fname) st = Inr (fn, st')"
  shows "\<exists>img. qrs st' fn = Some img
           \<and> pasted img = face_overlay e (img_size img) bytes"
proof -
  from g obtain qr where q: "make_fit e (worker_qr content) = Inr qr"
    by (auto simp: generate_qr_image_def split: sum.splits)
  let ?qi = "make_image qr"
  have np: "pasted ?qi = None" by (simp add: make_image_def Let_def)
  show ?thesis
  proof (cases "face_overlay e (img_size ?qi) bytes")
    case None
    with g q f ne np show ?thesis
      by (auto simp: generate_qr_image_def Let_def)
  next
    case (Some ov)
    with g q f ne show ?thesis
      by (auto simp: generate_qr_image_def Let_def)
  qed
qed

text \<open>
  C2, as stated, fails: a photo smaller than the bound is left as it is, so its longer
  side stays below 64. A 10 by 10 photo sent with the example submission is pasted at
  10 by 10.
\<close>

theorem thumbnail_within_bound_counterexample:
  "map_option (map_option thumb \<circ> pasted)
     (qrs (snd (create_worker example_env face_submission csv_start)) (lit ''W1001.png''))
     = Some (Some (10, 10))
   \<and> \<not> (64 :: nat) \<le> max 10 10"
proof -
  have a: "map_option (map_option thumb \<circ> pasted)
     (qrs (snd (create_worker example_env face_submission csv_start)) (lit ''W1001.png''))
     = Some (Some (10, 10))"
    by (simp add: eval_defs face_submission_def make_image_def face_overlay_def thumb_size_def
        thumbnail_def)
  then show ?thesis by simp
qed

text \<open>
  C2 (amended): for every composition with a face file that exists and decodes, the
  face is pasted, and with the bound taken as the larger of 64 and one sixth of the QR
  image's width, the thumbnail's longer side is at most the bound and neither side
  exceeds the photo's own; a photo within the bound keeps its size, and a photo
  exceeding it is scaled down so that its longer side equals the bound. No photo is
  ever scaled up. On an image at least 384 wide the bound is the sixth of the width, so
  the longer side is at most that sixth.
\<close>

theorem thumbnail_within_bound:
  assumes f: "faces st fname = Some bytes" and ne: "fname \<noteq> []"
    and o: "image_open e bytes = Some (fw, fh)" and pos: "0 < fw" "0 < fh"
    and g: "generate_qr_image e content hid (Some fname) st = Inr (fn, st')"
  shows "\<exists>img ov. qrs st' fn = Some img \<and> pasted img = Some ov
     \<and> max (fst (thumb ov)) (snd (thumb ov)) \<le> max 64 (fst (img_size img) div 6)
     \<and> fst (thumb ov) \<le> fw \<and> snd (thumb ov) \<le> fh
     \<and> (fw \<le> max 64 (fst (img_size img) div 6) \<and> fh \<le> max 64 (fst (img_size img) div 6)
          \<longrightarrow> thumb ov = (fw, fh))
     \<and> (\<not> (fw \<le> max 64 (fst (img_size img) div 6) \<and> fh \<le> max 64 (fst (img_size img) div 6))
          \<longrightarrow> max (fst (thumb ov)) (snd (thumb ov)) = max 64 (fst (img_size img) div 6))
     \<and> (384 \<le> fst (img_size img)
          \<longrightarrow> max (fst (thumb ov)) (snd (thumb ov)) \<le> fst (img_size img) div 6)"
proof -
  from generate_qr_image_pasted [OF f ne g] obtain img where
    i: "qrs st' fn = Some img" and p: "pasted img = face_overlay e (img_size img) bytes"
    by blast
  let ?b = "max 64 (fst (img_size img) div 6)"
  have b: "thumb_size (img_size img) = ?b" by (simp add: thumb_size_def)
  from face_overlay_thumb [OF o pos, of "img_size img"] b obtain ov where
    ov: "face_overlay e (img_size img) bytes = Some ov"
    and t: "thumbnail (fw, fh) (?b, ?b) = Some (thumb ov)"
    by auto
  have bp: "0 < ?b" by simp
  from t have t': "thumbnail (fw, fh) (?b, ?b) = Some (fst (thumb ov), snd (thumb ov))"
    by simp
  note tb = thumbnail_bounds [OF t' pos bp bp]
  from tb have m: "max (fst (thumb ov)) (snd (thumb ov)) \<le> ?b" by simp
  from tb have n: "\<not> (fw \<le> ?b \<and> fh \<le> ?b) \<longrightarrow> max (fst (thumb ov)) (snd (thumb ov)) = ?b"
    by (auto simp: max_def)
  from tb have k: "fw \<le> ?b \<and> fh \<le> ?b \<longrightarrow> thumb ov = (fw, fh)"
    by (auto simp: prod_eq_iff)
  from tb have u: "fst (thumb ov) \<le> fw" "snd (thumb ov) \<le> fh" by simp_all
  have w: "384 \<le> fst (img_size img)
          \<longrightarrow> max (fst (thumb ov)) (snd (thumb ov)) \<le> fst (img_size img) div 6"
  proof
    assume "384 \<le> fst (img_size img)"
    then have "64 \<le> fst (img_size img) div 6" by simp
    then have "?b = fst (img_size img) div 6" by simp
    with m show "max (fst (thumb ov)) (snd (thumb ov)) \<le> fst (img_size img) div 6" by simp
  qed
  from i p ov m n k u w show ?thesis by auto
qed

theorem thumbnail_within_bound_witness:
  "faces csv_faces (lit ''W1001.png'') = Some ''face-200x100''
   \<and> image_open example_env ''face-200x100'' = Some (200, 100)
   \<and> generate_qr_image example_env example_text (lit ''W1001'') (Some (lit ''W1001.png'')) csv_faces
       = Inr (lit ''W1001.png'',
              snd (projr (generate_qr_image example_env example_text (lit ''W1001'')
                            (Some (lit ''W1001.png'')) csv_faces)))
   \<and> map_option img_size
        (qrs (snd (projr (generate_qr_image example_env example_text (lit ''W1001'')
                            (Some (lit ''W1001.png'')) csv_faces))) (lit ''W1001.png''))
       = Some (530, 530)
   \<and> map_option (map_option thumb \<circ> pasted)
        (qrs (snd (projr (generate_qr_image example_env example_text (lit ''W1001'')
                            (Some (lit ''W1001.png'')) csv_faces))) (lit ''W1001.png''))
       = Some (Some (88, 44))
   \<and> max 88 44 = max 64 ((530 :: nat) div 6)
   \<and> faces (snd (create_worker example_env face_submission csv_start)) (lit ''W1001.png'')
       = Some ''face-10x10''
   \<and> image_open example_env ''face-10x10'' = Some (10, 10)
   \<and> map_option (map_option thumb \<circ> pasted)
        (qrs (snd (projr (generate_qr_image example_env example_text (lit ''W1001'')
                            (Some (lit ''W1001.png''))
                            (snd (create_worker example_env face_submission csv_start)))))
           (lit ''W1001.png''))
       = Some (Some (10, 10))"
proof -
  let ?g = "generate_qr_image example_env example_text (lit ''W1001'') (Some (lit ''W1001.png''))
              csv_faces"
  let ?st = "snd (projr ?g)"
  let ?small = "snd (create_worker example_env face_submission csv_start)"
  let ?h = "generate_qr_image example_env example_text (lit ''W1001'') (Some (lit ''W1001.png''))
              ?small"
  let ?st' = "snd (projr ?h)"
  note ev = generate_qr_image_def make_fit_def example_env_def worker_qr_def Let_def
    example_text_def json_dumps_def json_string_def json_escape_char_def lit_def
  have f: "faces csv_faces (lit ''W1001.png'') = Some ''face-200x100''"
    by (simp add: csv_faces_def)
  have ne: "lit ''W1001.png'' \<noteq> []" by (simp add: lit_def)
  have o: "image_open example_env ''face-200x100'' = Some (200, 100)"
    by (simp add: example_env_def)
  have isr: "\<not> isl ?g"
    by (simp add: ev split: option.splits)
  have fn: "fst (projr ?g) = lit ''W1001.png''"
    by (simp add: ev split: option.splits)
  from isr fn have g: "?g = Inr (lit ''W1001.png'', ?st)"
    by (metis prod.collapse sum.collapse(2))
  have s: "map_option img_size (qrs ?st (lit ''W1001.png'')) = Some (530, 530)"
    by (simp add: ev csv_faces_def make_image_def face_overlay_def thumb_size_def thumbnail_def)
  have t: "map_option (map_option thumb \<circ> pasted) (qrs ?st (lit ''W1001.png'')) = Some (Some (88, 44))"
    by (simp add: ev csv_faces_def make_image_def face_overlay_def thumb_size_def thumbnail_def)
  from thumbnail_within_bound [OF f ne o _ _ g] obtain img ov where
    i: "qrs ?st (lit ''W1001.png'') = Some img" and p: "pasted img = Some ov"
    and n: "\<not> (200 \<le> max 64 (fst (img_size img) div 6) \<and> 100 \<le> max 64 (fst (img_size img) div 6))
          \<longrightarrow> max (fst (thumb ov)) (snd (thumb ov)) = max 64 (fst (img_size img) div 6)"
    and w: "384 \<le> fst (img_size img)
          \<longrightarrow> max (fst (thumb ov)) (snd (thumb ov)) \<le> fst (img_size img) div 6"
    by auto
  from s i have sz: "img_size img = (530, 530)" by simp
  from n sz have "max (fst (thumb ov)) (snd (thumb ov)) = max 64 ((530 :: nat) div 6)" by simp
  moreover from t i p have "thumb ov = (88, 44)" by simp
  ultimately have m: "max 88 44 = max 64 ((530 :: nat) div 6)" by simp
  have f': "faces ?small (lit ''W1001.png'') = Some ''face-10x10''"
    by (simp add: eval_defs face_submission_def)
  have o': "image_open example_env ''face-10x10'' = Some (10, 10)"
    by (simp add: example_env_def)
  have isr': "\<not> isl ?h"
    by (simp add: ev split: option.splits)
  have fn': "fst (projr ?h) = lit ''W1001.png''"
    by (simp add: ev split: option.splits)
  from isr' fn' have h: "?h = Inr (lit ''W1001.png'', ?st')"
    by (metis prod.collapse sum.collapse(2))
  from thumbnail_within_bound [OF f' ne o' _ _ h] obtain img' ov' where
    i': "qrs ?st' (lit ''W1001.png'') = Some img'" and p': "pasted img' = Some ov'"
    and k: "10 \<le> max 64 (fst (img_size img') div 6) \<and> 10 \<le> max 64 (fst (img_size img') div 6)
          \<longrightarrow> thumb ov' = (10, 10)"
    by auto
  from k have "thumb ov' = (10, 10)" by simp
  with i' p' have t': "map_option (map_option thumb \<circ> pasted) (qrs ?st' (lit ''W1001.png''))
                         = Some (Some (10, 10))"
    by simp
  from f o g s t m f' o' t' show ?thesis by blast
qed

section \<open>Fetching the QR image\<close>


lemma generate_qr_image_Inr_iff:
  "(\<exists>fn st'. generate_qr_image e content hid face st = Inr (fn, st'))
     \<longleftrightarrow> best_fit e ERROR_CORRECT_M 2 content \<noteq> None"
  by (auto simp: generate_qr_image_def make_fit_def worker_qr_def Let_def split: option.splits)

lemma generate_qr_image_cached:
  assumes "generate_qr_image e content hid face st = Inr (fn, st')"
  shows "\<exists>img. qrs st' (hid @ lit ''.png'') = Some img \<and> qr_data (symbol img) = content
           \<and> faces st' = faces st \<and> assets.more st' = assets.more st
           \<and> send_qr (hid @ lit ''.png'') st' = Png img"
proof -
  from generate_qr_image_text [OF assms] obtain img where
    i: "qrs st' (hid @ lit ''.png'') = Some img" and d: "qr_data (symbol img) = content"
    by auto
  from generate_qr_image_state [OF assms] have "faces st' = faces st"
    and "assets.more st' = assets.more st" by auto
  with i d show ?thesis by (simp add: send_qr_def)
qed












section \<open>Registering the same identifier again\<close>

lemma create_worker_rows:
  assumes c: "create_worker e data st = (Created hid qu fu, st')"
    and one: "length (filter (\<lambda>r. health_id r = hid)
                (case csv_file st of None \<Rightarrow> [] | Some rs \<Rightarrow> rs)) \<le> 1"
  shows "\<exists>rows f. csv_file st' = Some rows \<and> parse_fields e data = Inr f
           \<and> filter (\<lambda>r. health_id r = hid) rows
               = [new_row hid f (fst (store_face e hid data st)) (hid @ lit ''.png'')]
           \<and> (\<forall>k. k \<noteq> hid \<longrightarrow> filter (\<lambda>r. health_id r = k) rows
                 = filter (\<lambda>r. health_id r = k)
                     (case csv_file st of None \<Rightarrow> [] | Some rs \<Rightarrow> rs))"
proof -
  from create_worker_Created [OF c] obtain f face_fn st1 st2 where
    p: "parse_fields e data = Inr f"
    and sf: "store_face e hid data st = (face_fn, st1)"
    and s: "st' = st2\<lparr>csv_file := Some (upsert_rows hid (new_row hid f face_fn (hid @ lit ''.png''))
                                          (csv_file st))\<rparr>"
    by blast
  let ?new = "new_row hid f face_fn (hid @ lit ''.png'')"
  have h: "health_id ?new = hid" by (simp add: new_row_def)
  from s have cf: "csv_file st' = Some (upsert_rows hid ?new (csv_file st))" by simp
  from filter_upsert_same [OF h one]
  have a: "filter (\<lambda>r. health_id r = hid) (upsert_rows hid ?new (csv_file st)) = [?new]" .
  have b: "\<forall>k. k \<noteq> hid \<longrightarrow> filter (\<lambda>r. health_id r = k) (upsert_rows hid ?new (csv_file st))
                 = filter (\<lambda>r. health_id r = k)
                     (case csv_file st of None \<Rightarrow> [] | Some rs \<Rightarrow> rs)"
    using filter_upsert_other [OF h] by blast
  from sf have "fst (store_face e hid data st) = face_fn" by simp
  with cf p a b show ?thesis by simp
qed

lemma create_worker_back_rows:
  assumes c: "create_worker_back e data st = (Created hid qu fu, st')"
    and one: "length (filter (\<lambda>w. w_health_id w = hid) (workers st)) \<le> 1"
  shows "\<exists>g d w0. parse_fields_ext e data = Inr g
           \<and> registration_datetime e (n_registration_date g) = Inr d
           \<and> w_health_id w0 = hid
           \<and> filter (\<lambda>w. w_health_id w = hid) (workers st')
               = [assign w0 g d (fst (store_face e hid data st)) (hid @ lit ''.png'')]
           \<and> (\<forall>k. k \<noteq> hid \<longrightarrow> filter (\<lambda>w. w_health_id w = k) (workers st')
                 = filter (\<lambda>w. w_health_id w = k) (workers st))"
proof -
  from create_worker_back_Created [OF c] obtain g face_fn st1 st2 where
    p: "parse_fields_ext e data = Inr g"
    and sf: "store_face e hid data st = (face_fn, st1)"
    and w: "workers st2 = workers st"
    and s: "persist e hid g face_fn (hid @ lit ''.png'') st2 = Inr st'"
    by blast
  from persist_Inr [OF s] w one obtain w0 d where
    "w_health_id w0 = hid" "registration_datetime e (n_registration_date g) = Inr d"
    "filter (\<lambda>w. w_health_id w = hid) (workers st') = [assign w0 g d face_fn (hid @ lit ''.png'')]"
    "\<forall>k. k \<noteq> hid \<longrightarrow> filter (\<lambda>w. w_health_id w = k) (workers st')
                                  = filter (\<lambda>w. w_health_id w = k) (workers st)"
    by auto
  moreover from sf have "fst (store_face e hid data st) = face_fn" by simp
  ultimately show ?thesis using p by blast
qed

text \<open>
  When the rewrite of the flat file fails, the request is answered with 500 and the
  file holds what the failed write left, which need not be what it held before.
\<close>

lemma create_worker_write_fails:
  assumes "text_field data ''healthId'' = Inr hid" and "hid \<noteq> []"
    and "parse_fields e data = Inr f"
    and "store_face e hid data st = (face_fn, st1)"
    and "generate_qr_image e (json_dumps (qr_payload hid f)) hid (or_None face_fn) st1
           = Inr (qr_fn, st2)"
    and "csv_write e (csv_file st2) (upsert_rows hid (new_row hid f face_fn qr_fn) (csv_file st2))
           = WriteFailed left"
  shows "create_worker e data st = (ServerError OSError, st2\<lparr>csv_file := left\<rparr>)"
  using assms by (simp add: create_worker_def Let_def)

text \<open>
  On a disk that takes every write, no registration request, accepted or not, makes
  two records share an identifier: a store with at most one record per identifier
  stays so, and the stores are so at start-up. The table has this property whatever
  the disk does.
\<close>

lemma create_worker_not_created:
  assumes "create_worker e data st = (resp, st')"
    and w: "\<forall>old rows. csv_write e old rows = Written"
  shows "(\<exists>hid qu fu. resp = Created hid qu fu) \<or> csv_file st' = csv_file st"
proof (cases "text_field data ''healthId''")
  case (Inl err)
  with assms show ?thesis by (simp add: create_worker_def)
next
  case (Inr hid)
  show ?thesis
  proof (cases "hid = [] \<or> isl (parse_fields e data)")
    case True
    with assms Inr show ?thesis
      by (auto simp: create_worker_def split: sum.splits if_splits)
  next
    case False
    then obtain f where f: "parse_fields e data = Inr f" and ne: "hid \<noteq> []"
      by (cases "parse_fields e data") auto
    obtain face_fn st1 where sf: "store_face e hid data st = (face_fn, st1)"
      by (cases "store_face e hid data st") auto
    from store_face_state [OF sf] have c: "csv_file st1 = csv_file st" by auto
    from assms Inr ne f sf c show ?thesis
      by (auto simp: create_worker_def created_def Let_def split: sum.splits)
  qed
qed

lemma create_worker_unique_ids:
  assumes inv: "\<forall>k. length (filter (\<lambda>r. health_id r = k)
                   (case csv_file st of None \<Rightarrow> [] | Some rs \<Rightarrow> rs)) \<le> 1"
    and c: "create_worker e data st = (resp, st')"
    and w: "\<forall>old rows. csv_write e old rows = Written"
  shows "\<forall>k. length (filter (\<lambda>r. health_id r = k)
                   (case csv_file st' of None \<Rightarrow> [] | Some rs \<Rightarrow> rs)) \<le> 1"
proof (cases "\<exists>hid qu fu. resp = Created hid qu fu")
  case True
  then obtain hid qu fu where r: "resp = Created hid qu fu" by blast
  from inv have one: "length (filter (\<lambda>r. health_id r = hid)
                   (case csv_file st of None \<Rightarrow> [] | Some rs \<Rightarrow> rs)) \<le> 1" by blast
  from create_worker_rows [OF c [unfolded r] one] obtain rows new where
    cf: "csv_file st' = Some rows"
    and same: "filter (\<lambda>r. health_id r = hid) rows = [new]"
    and other: "\<forall>k. k \<noteq> hid \<longrightarrow> filter (\<lambda>r. health_id r = k) rows
                 = filter (\<lambda>r. health_id r = k)
                     (case csv_file st of None \<Rightarrow> [] | Some rs \<Rightarrow> rs)"
    by blast
  show ?thesis
  proof
    fix k
    show "length (filter (\<lambda>r. health_id r = k)
                   (case csv_file st' of None \<Rightarrow> [] | Some rs \<Rightarrow> rs)) \<le> 1"
    proof (cases "k = hid")
      case True
      with cf same show ?thesis by simp
    next
      case False
      with cf other inv show ?thesis by simp
    qed
  qed
next
  case False
  with create_worker_not_created [OF c w] have "csv_file st' = csv_file st" by blast
  with inv show ?thesis by simp
qed

lemma csv_start_unique_ids:
  "\<forall>k. length (filter (\<lambda>r. health_id r = k)
                   (case csv_file csv_start of None \<Rightarrow> [] | Some rs \<Rightarrow> rs)) \<le> 1"
  by (simp add: csv_start_def)

lemma create_worker_back_not_created:
  assumes "create_worker_back e data st = (resp, st')"
  shows "(\<exists>hid qu fu. resp = Created hid qu fu) \<or> workers st' = workers st"
proof (cases "text_field data ''healthId''")
  case (Inl err)
  with assms show ?thesis by (simp add: create_worker_back_def)
next
  case (Inr hid)
  show ?thesis
  proof (cases "hid = [] \<or> isl (parse_fields_ext e data)")
    case True
    with assms Inr show ?thesis
      by (auto simp: create_worker_back_def split: sum.splits if_splits)
  next
    case False
    then obtain f where f: "parse_fields_ext e data = Inr f" and ne: "hid \<noteq> []"
      by (cases "parse_fields_ext e data") auto
    obtain face_fn st1 where sf: "store_face e hid data st = (face_fn, st1)"
      by (cases "store_face e hid data st") auto
    from store_face_state [OF sf] have c: "workers st1 = workers st" by auto
    show ?thesis
    proof (cases "generate_qr_image e (json_dumps (qr_payload_back hid f)) hid
                    (or_None face_fn) st1")
      case (Inl err)
      with assms Inr ne f sf c show ?thesis by (simp add: create_worker_back_def)
    next
      case (Inr p)
      obtain qr_fn st2 where p: "p = (qr_fn, st2)" by (cases p)
      from generate_qr_image_state [OF Inr [unfolded p]] have c2: "workers st2 = workers st1"
        by auto
      from assms \<open>text_field data ''healthId'' = Inr hid\<close> ne f sf Inr p c c2 show ?thesis
        by (auto simp: create_worker_back_def created_def split: sum.splits)
    qed
  qed
qed

lemma create_worker_back_unique_ids:
  assumes inv: "\<forall>k. length (filter (\<lambda>w. w_health_id w = k) (workers st)) \<le> 1"
    and c: "create_worker_back e data st = (resp, st')"
  shows "\<forall>k. length (filter (\<lambda>w. w_health_id w = k) (workers st')) \<le> 1"
proof (cases "\<exists>hid qu fu. resp = Created hid qu fu")
  case True
  then obtain hid qu fu where r: "resp = Created hid qu fu" by blast
  from inv have one: "length (filter (\<lambda>w. w_health_id w = hid) (workers st)) \<le> 1" by blast
  from create_worker_back_rows [OF c [unfolded r] one] obtain new where
    same: "filter (\<lambda>w. w_health_id w = hid) (workers st') = [new]"
    and other: "\<forall>k. k \<noteq> hid \<longrightarrow> filter (\<lambda>w. w_health_id w = k) (workers st')
                 = filter (\<lambda>w. w_health_id w = k) (workers st)"
    by blast
  show ?thesis
  proof
    fix k
    show "length (filter (\<lambda>w. w_health_id w = k) (workers st')) \<le> 1"
    proof (cases "k = hid")
      case True
      with same show ?thesis by simp
    next
      case False
      with other inv show ?thesis by simp
    qed
  qed
next
  case False
  with create_worker_back_not_created [OF c] have "workers st' = workers st" by blast
  with inv show ?thesis by simp
qed

lemma n_truncate_rest:
  "n_phone (fields.truncate g) = n_phone g"
  "n_blood_group (fields.truncate g) = n_blood_group g"
  "n_marital_status (fields.truncate g) = n_marital_status g"
  "n_language (fields.truncate g) = n_language g"
  "n_financial_status (fields.truncate g) = n_financial_status g"
  by (simp_all add: fields.defs)

lemma age_or_None_age_field: "age_field e data = Inr a \<Longrightarrow> age_or_None a = a"
  by (cases a) (auto simp: age_or_None_def dest: age_field_nonzero)

lemma assign_record:
  "assign w g d face_fn qr_fn =
     \<lparr>w_id = w_id w, w_health_id = w_health_id w, w_full_name = n_full_name g,
      w_age = age_or_None (n_age g), w_gender = Some (n_gender g), w_phone = Some (n_phone g),
      w_address = Some (n_address g), w_native_state = Some (n_native_state g),
      w_blood_group = Some (n_blood_group g), w_marital_status = Some (n_marital_status g),
      w_language = Some (n_language g), w_financial_status = Some (n_financial_status g),
      w_allergies = Some (n_allergies g), w_conditions = Some (n_conditions g),
      w_inherited_diseases = Some (n_inherited_diseases g),
      w_previous_treatments = Some (n_previous_treatments g),
      w_vaccination_count = n_vaccination_count g, w_registration_date = d,
      w_face_filename = Some face_fn, w_qr_filename = Some qr_fn\<rparr>"
  by (cases w) (simp add: assign_def)

lemma resubmission_csv:
  assumes one: "length (filter (\<lambda>r. health_id r = hid)
                  (case csv_file st of None \<Rightarrow> [] | Some rs \<Rightarrow> rs)) \<le> 1"
    and c1: "create_worker e d1 st = (Created hid q1 u1, st1)"
    and c2: "create_worker e d2 st1 = (Created hid q2 u2, st2)"
  shows "\<exists>rows name a g ph ad ns bg ms lg fs.
           csv_file st2 = Some rows
           \<and> text_field d2 ''fullName'' = Inr name \<and> age_field e d2 = Inr a
           \<and> text_field d2 ''gender'' = Inr g \<and> text_field d2 ''phone'' = Inr ph
           \<and> text_field d2 ''address'' = Inr ad \<and> text_field d2 ''nativeState'' = Inr ns
           \<and> text_field d2 ''bloodGroup'' = Inr bg \<and> text_field d2 ''maritalStatus'' = Inr ms
           \<and> text_field d2 ''language'' = Inr lg \<and> text_field d2 ''financialStatus'' = Inr fs
           \<and> filter (\<lambda>r. health_id r = hid) rows
               = [\<lparr>health_id = hid, full_name = name,
                    age = (case a of None \<Rightarrow> [] | Some n \<Rightarrow> str_int n),
                    gender = g, phone = ph, address = ad, native_state = ns, blood_group = bg,
                    marital_status = ms, language = lg, financial_status = fs,
                    registration_date = py_str (get_or d2 ''registrationDate'' (JStr (today e))),
                    face_filename = fst (store_face e hid d2 st1),
                    qr_filename = hid @ lit ''.png''\<rparr>]"
proof -
  from create_worker_rows [OF c1 one] obtain rows1 r1 where
    "csv_file st1 = Some rows1" "filter (\<lambda>r. health_id r = hid) rows1 = [r1]"
    by blast
  then have one1: "length (filter (\<lambda>r. health_id r = hid)
                  (case csv_file st1 of None \<Rightarrow> [] | Some rs \<Rightarrow> rs)) \<le> 1"
    by simp
  from create_worker_rows [OF c2 one1] obtain rows f where
    cf: "csv_file st2 = Some rows" and p: "parse_fields e d2 = Inr f"
    and fr: "filter (\<lambda>r. health_id r = hid) rows
               = [new_row hid f (fst (store_face e hid d2 st1)) (hid @ lit ''.png'')]"
    by blast
  note pf = parse_fields_Inr [OF p]
  have row: "new_row hid f (fst (store_face e hid d2 st1)) (hid @ lit ''.png'')
      = \<lparr>health_id = hid, full_name = n_full_name f,
         age = (case n_age f of None \<Rightarrow> [] | Some n \<Rightarrow> str_int n),
         gender = n_gender f, phone = n_phone f, address = n_address f,
         native_state = n_native_state f, blood_group = n_blood_group f,
         marital_status = n_marital_status f, language = n_language f,
         financial_status = n_financial_status f,
         registration_date = py_str (get_or d2 ''registrationDate'' (JStr (today e))),
         face_filename = fst (store_face e hid d2 st1),
         qr_filename = hid @ lit ''.png''\<rparr>"
    by (simp add: new_row_def str_age_def pf(11))
  from cf pf(1-10) fr [unfolded row] show ?thesis by blast
qed

lemma resubmission_db:
  assumes one_db: "length (filter (\<lambda>w. w_health_id w = hid) (workers db)) \<le> 1"
    and b1: "create_worker_back e d1 db = (Created hid q3 u3, db1)"
    and b2: "create_worker_back e d2 db1 = (Created hid q4 u4, db2)"
  shows "\<exists>i name a g ph ad ns bg ms lg fs al co ih pt v d.
           text_field d2 ''fullName'' = Inr name \<and> age_field e d2 = Inr a
           \<and> text_field d2 ''gender'' = Inr g \<and> text_field d2 ''phone'' = Inr ph
           \<and> text_field d2 ''address'' = Inr ad \<and> text_field d2 ''nativeState'' = Inr ns
           \<and> text_field d2 ''bloodGroup'' = Inr bg \<and> text_field d2 ''maritalStatus'' = Inr ms
           \<and> text_field d2 ''language'' = Inr lg \<and> text_field d2 ''financialStatus'' = Inr fs
           \<and> text_field d2 ''allergies'' = Inr al \<and> text_field d2 ''conditions'' = Inr co
           \<and> text_field d2 ''inheritedDiseases'' = Inr ih
           \<and> text_field d2 ''previousTreatments'' = Inr pt
           \<and> vaccination_field e d2 = Inr v
           \<and> registration_datetime e (get_or d2 ''registrationDate'' (JStr (today e))) = Inr d
           \<and> filter (\<lambda>w. w_health_id w = hid) (workers db2)
               = [\<lparr>w_id = i, w_health_id = hid, w_full_name = name, w_age = a,
                    w_gender = Some g, w_phone = Some ph, w_address = Some ad,
                    w_native_state = Some ns, w_blood_group = Some bg,
                    w_marital_status = Some ms, w_language = Some lg,
                    w_financial_status = Some fs, w_allergies = Some al,
                    w_conditions = Some co, w_inherited_diseases = Some ih,
                    w_previous_treatments = Some pt, w_vaccination_count = v,
                    w_registration_date = d,
                    w_face_filename = Some (fst (store_face e hid d2 db1)),
                    w_qr_filename = Some (hid @ lit ''.png'')\<rparr>]"
proof -
  from create_worker_back_rows [OF b1 one_db] obtain w1 where
    "filter (\<lambda>w. w_health_id w = hid) (workers db1) = [w1]"
    by blast
  then have one_db1: "length (filter (\<lambda>w. w_health_id w = hid) (workers db1)) \<le> 1"
    by simp
  from create_worker_back_rows [OF b2 one_db1] obtain g d w0 where
    p: "parse_fields_ext e d2 = Inr g"
    and rd: "registration_datetime e (n_registration_date g) = Inr d"
    and h: "w_health_id w0 = hid"
    and fw: "filter (\<lambda>w. w_health_id w = hid) (workers db2)
               = [assign w0 g d (fst (store_face e hid d2 db1)) (hid @ lit ''.png'')]"
    by blast
  note px = parse_fields_ext_Inr [OF p]
  note pf = parse_fields_Inr [OF px(1), unfolded n_truncate n_truncate_rest n_age_truncate]
  from pf(2) have ag: "age_or_None (n_age g) = n_age g" by (rule age_or_None_age_field)
  from rd pf(11) have rd':
    "registration_datetime e (get_or d2 ''registrationDate'' (JStr (today e))) = Inr d"
    by simp
  note row = assign_record [of w0 g d "fst (store_face e hid d2 db1)" "hid @ lit ''.png''",
      unfolded h ag]
  from pf(1-10) px(2-6) rd' fw [unfolded row] show ?thesis by blast
qed

text \<open>
  C1, as stated, fails when the second call is rejected: a second submission with the
  same identifier, another name and an age that is not a number is answered with 500,
  and the record keeps the first submission's values.
\<close>

theorem resubmission_replaces_counterexample:
  "create_worker example_env example_submission csv_start
     = (Created (lit ''W1001'') (lit ''/api/workers/W1001/qr.png'') None, csv_once)
   \<and> text_field bad_second_submission ''healthId'' = Inr (lit ''W1001'')
   \<and> text_field bad_second_submission ''fullName'' = Inr (lit ''Asha Kumari'')
   \<and> create_worker example_env bad_second_submission csv_once
     = (ServerError ValueError, csv_once)
   \<and> map_option (map full_name) (csv_file csv_once) = Some [lit ''Asha Devi'']
   \<and> create_worker_back example_env example_submission db_start
     = (Created (lit ''W1001'') (lit ''/api/workers/W1001/qr.png'') None, db_once)
   \<and> create_worker_back example_env bad_second_submission db_once
     = (ServerError ValueError, db_once)
   \<and> map w_full_name (workers db_once) = [lit ''Asha Devi'']"
proof -
  have 1: "fst (create_worker example_env example_submission csv_start)
             = Created (lit ''W1001'') (lit ''/api/workers/W1001/qr.png'') None"
    by (simp add: eval_defs)
  have 3: "fst (create_worker_back example_env example_submission db_start)
             = Created (lit ''W1001'') (lit ''/api/workers/W1001/qr.png'') None"
    by (simp add: eval_back)
  from 1 have c1: "create_worker example_env example_submission csv_start
     = (Created (lit ''W1001'') (lit ''/api/workers/W1001/qr.png'') None, csv_once)"
    unfolding csv_once_def by (metis prod.collapse)
  from 3 have b1: "create_worker_back example_env example_submission db_start
     = (Created (lit ''W1001'') (lit ''/api/workers/W1001/qr.png'') None, db_once)"
    unfolding db_once_def by (metis prod.collapse)
  have a: "int_of_str example_env (lit ''abc'') = Inl ValueError"
    by (rule int_of_str_examples(10))
  have t: "text_field bad_second_submission ''healthId'' = Inr (lit ''W1001'')"
    "text_field bad_second_submission ''fullName'' = Inr (lit ''Asha Kumari'')"
    by (simp_all add: text_field_def get_or_def strip_def py_isspace_def
        bad_second_submission_def second_submission_def example_submission_def lit_def)
  have ne: "lit ''abc'' \<noteq> []" "lit ''W1001'' \<noteq> []" by (simp_all add: lit_def)
  have "bad_second_submission ''age'' = Some (JStr (lit ''abc''))"
    by (simp add: bad_second_submission_def)
  then have af: "age_field example_env bad_second_submission = Inl ValueError"
    using ne(1) a by (rule age_field_str)
  have p: "parse_fields example_env bad_second_submission = Inl ValueError"
    "parse_fields_ext example_env bad_second_submission = Inl ValueError"
    by (simp_all add: parse_fields_def parse_fields_ext_def bind_err_def t af)
  have c2: "create_worker example_env bad_second_submission csv_once
     = (ServerError ValueError, csv_once)"
    by (rule create_worker_parse_fails(1) [OF t(1) ne(2) p(1)])
  have b2: "create_worker_back example_env bad_second_submission db_once
     = (ServerError ValueError, db_once)"
    by (rule create_worker_parse_fails(2) [OF t(1) ne(2) p(2)])
  have r: "map_option (map full_name) (csv_file csv_once) = Some [lit ''Asha Devi'']"
    by (simp add: csv_once_def eval_defs upsert_rows_def new_row_def)
  have w: "map w_full_name (workers db_once) = [lit ''Asha Devi'']"
    by (simp add: db_once_def eval_back)
  from c1 t c2 r b1 b2 w show ?thesis by simp
qed

text \<open>
  C1 (amended): in each variant, starting from a store with at most one record for the
  identifier, after two accepted registrations with that identifier the store holds
  exactly one record for it, and every field of that record other than the identifier
  is the second submission's normalised value: the trimmed texts, the converted age
  (absent for zero) and, in the table, vaccination count, the registration date given
  or today's, and the face and QR file names of the second request, whatever the
  first submission held. The flat file stores the age and the date as text, the table
  stores the date parsed.
\<close>

theorem resubmission_replaces:
  "(length (filter (\<lambda>r. health_id r = hid)
       (case csv_file st of None \<Rightarrow> [] | Some rs \<Rightarrow> rs)) \<le> 1
    \<and> create_worker e d1 st = (Created hid q1 u1, st1)
    \<and> create_worker e d2 st1 = (Created hid q2 u2, st2)
    \<longrightarrow> (\<exists>rows name a g ph ad ns bg ms lg fs.
           csv_file st2 = Some rows
           \<and> text_field d2 ''fullName'' = Inr name \<and> age_field e d2 = Inr a
           \<and> text_field d2 ''gender'' = Inr g \<and> text_field d2 ''phone'' = Inr ph
           \<and> text_field d2 ''address'' = Inr ad \<and> text_field d2 ''nativeState'' = Inr ns
           \<and> text_field d2 ''bloodGroup'' = Inr bg \<and> text_field d2 ''maritalStatus'' = Inr ms
           \<and> text_field d2 ''language'' = Inr lg \<and> text_field d2 ''financialStatus'' = Inr fs
           \<and> filter (\<lambda>r. health_id r = hid) rows
               = [\<lparr>health_id = hid, full_name = name,
                    age = (case a of None \<Rightarrow> [] | Some n \<Rightarrow> str_int n),
                    gender = g, phone = ph, address = ad, native_state = ns, blood_group = bg,
                    marital_status = ms, language = lg, financial_status = fs,
                    registration_date = py_str (get_or d2 ''registrationDate'' (JStr (today e))),
                    face_filename = fst (store_face e hid d2 st1),
                    qr_filename = hid @ lit ''.png''\<rparr>]))
   \<and> (length (filter (\<lambda>w. w_health_id w = hid) (workers db)) \<le> 1
      \<and> create_worker_back e d1' db = (Created hid q3 u3, db1)
      \<and> create_worker_back e d2' db1 = (Created hid q4 u4, db2)
      \<longrightarrow> (\<exists>i name a g ph ad ns bg ms lg fs al co ih pt v d.
           text_field d2' ''fullName'' = Inr name \<and> age_field e d2' = Inr a
           \<and> text_field d2' ''gender'' = Inr g \<and> text_field d2' ''phone'' = Inr ph
           \<and> text_field d2' ''address'' = Inr ad \<and> text_field d2' ''nativeState'' = Inr ns
           \<and> text_field d2' ''bloodGroup'' = Inr bg \<and> text_field d2' ''maritalStatus'' = Inr ms
           \<and> text_field d2' ''language'' = Inr lg \<and> text_field d2' ''financialStatus'' = Inr fs
           \<and> text_field d2' ''allergies'' = Inr al \<and> text_field d2' ''conditions'' = Inr co
           \<and> text_field d2' ''inheritedDiseases'' = Inr ih
           \<and> text_field d2' ''previousTreatments'' = Inr pt
           \<and> vaccination_field e d2' = Inr v
           \<and> registration_datetime e (get_or d2' ''registrationDate'' (JStr (today e))) = Inr d
           \<and> filter (\<lambda>w. w_health_id w = hid) (workers db2)
               = [\<lparr>w_id = i, w_health_id = hid, w_full_name = name, w_age = a,
                    w_gender = Some g, w_phone = Some ph, w_address = Some ad,
                    w_native_state = Some ns, w_blood_group = Some bg,
                    w_marital_status = Some ms, w_language = Some lg,
                    w_financial_status = Some fs, w_allergies = Some al,
                    w_conditions = Some co, w_inherited_diseases = Some ih,
                    w_previous_treatments = Some pt, w_vaccination_count = v,
                    w_registration_date = d,
                    w_face_filename = Some (fst (store_face e hid d2' db1)),
                    w_qr_filename = Some (hid @ lit ''.png'')\<rparr>]))"
  using resubmission_csv [of hid st e d1 q1 u1 st1 d2 q2 u2 st2]
    resubmission_db [of hid db e d1' q3 u3 db1 d2' q4 u4 db2]
  by blast

theorem resubmission_replaces_witness:
  "create_worker example_env example_submission csv_start
     = (Created (lit ''W1001'') (lit ''/api/workers/W1001/qr.png'') None, csv_once)
   \<and> create_worker example_env second_submission csv_once
     = (Created (lit ''W1001'') (lit ''/api/workers/W1001/qr.png'') None, csv_twice)
   \<and> create_worker_back example_env example_submission db_start
     = (Created (lit ''W1001'') (lit ''/api/workers/W1001/qr.png'') None, db_once)
   \<and> create_worker_back example_env second_submission db_once
     = (Created (lit ''W1001'') (lit ''/api/workers/W1001/qr.png'') None, db_twice)
   \<and> map_option (map (\<lambda>r. (full_name r, age r, address r))
                   \<circ> filter (\<lambda>r. health_id r = lit ''W1001'')) (csv_file csv_twice)
       = Some [(lit ''Asha Kumari'', lit ''31'', lit ''Gaya'')]
   \<and> map (\<lambda>w. (w_full_name w, w_age w, w_address w))
        (filter (\<lambda>w. w_health_id w = lit ''W1001'') (workers db_twice))
       = [(lit ''Asha Kumari'', Some 31, Some (lit ''Gaya''))]"
proof -
  have 1: "fst (create_worker example_env example_submission csv_start)
             = Created (lit ''W1001'') (lit ''/api/workers/W1001/qr.png'') None"
    by (simp add: eval_defs)
  have 2: "fst (create_worker example_env second_submission csv_once)
             = Created (lit ''W1001'') (lit ''/api/workers/W1001/qr.png'') None"
    by (simp add: eval_defs second_submission_def)
  have 3: "fst (create_worker_back example_env example_submission db_start)
             = Created (lit ''W1001'') (lit ''/api/workers/W1001/qr.png'') None"
    by (simp add: eval_back)
  have 4: "fst (create_worker_back example_env second_submission db_once)
             = Created (lit ''W1001'') (lit ''/api/workers/W1001/qr.png'') None"
    by (simp add: eval_back second_submission_def db_once_def)
  from 1 have c1: "create_worker example_env example_submission csv_start
     = (Created (lit ''W1001'') (lit ''/api/workers/W1001/qr.png'') None, csv_once)"
    unfolding csv_once_def by (metis prod.collapse)
  from 2 have c2: "create_worker example_env second_submission csv_once
     = (Created (lit ''W1001'') (lit ''/api/workers/W1001/qr.png'') None, csv_twice)"
    unfolding csv_twice_def by (metis prod.collapse)
  from 3 have b1: "create_worker_back example_env example_submission db_start
     = (Created (lit ''W1001'') (lit ''/api/workers/W1001/qr.png'') None, db_once)"
    unfolding db_once_def by (metis prod.collapse)
  from 4 have b2: "create_worker_back example_env second_submission db_once
     = (Created (lit ''W1001'') (lit ''/api/workers/W1001/qr.png'') None, db_twice)"
    unfolding db_twice_def by (metis prod.collapse)
  have one: "length (filter (\<lambda>r. health_id r = lit ''W1001'')
                  (case csv_file csv_start of None \<Rightarrow> [] | Some rs \<Rightarrow> rs)) \<le> 1"
    by (simp add: csv_start_def)
  have one_db: "length (filter (\<lambda>w. w_health_id w = lit ''W1001'') (workers db_start)) \<le> 1"
    by (simp add: db_start_def)
  have tf: "text_field second_submission ''fullName'' = Inr (lit ''Asha Kumari'')"
    "text_field second_submission ''address'' = Inr (lit ''Gaya'')"
    by (simp_all add: text_field_def get_or_def strip_def py_isspace_def second_submission_def
        lit_def)
  have af: "age_field example_env second_submission = Inr (Some 31)"
    by (simp add: age_field_def get_or_def bind_err_def second_submission_def)
  have s31: "str_int 31 = lit ''31''"
    by (simp add: str_int_def digit_char_def lit_def)
  note th = resubmission_replaces [where hid = "lit ''W1001''" and e = example_env
      and st = csv_start and ?d1.0 = example_submission and ?st1.0 = csv_once
      and ?d2.0 = second_submission and ?st2.0 = csv_twice
      and ?q1.0 = "lit ''/api/workers/W1001/qr.png''" and ?u1.0 = None
      and ?q2.0 = "lit ''/api/workers/W1001/qr.png''" and ?u2.0 = None
      and db = db_start and d1' = example_submission and ?db1.0 = db_once
      and d2' = second_submission and ?db2.0 = db_twice
      and ?q3.0 = "lit ''/api/workers/W1001/qr.png''" and ?u3.0 = None
      and ?q4.0 = "lit ''/api/workers/W1001/qr.png''" and ?u4.0 = None]
  from th [THEN conjunct1, THEN mp, OF conjI [OF one conjI [OF c1 c2]]] tf af
  have a: "map_option (map (\<lambda>r. (full_name r, age r, address r))
                   \<circ> filter (\<lambda>r. health_id r = lit ''W1001'')) (csv_file csv_twice)
       = Some [(lit ''Asha Kumari'', lit ''31'', lit ''Gaya'')]"
    by (auto simp: s31)
  from th [THEN conjunct2, THEN mp, OF conjI [OF one_db conjI [OF b1 b2]]] tf af
  have b: "map (\<lambda>w. (w_full_name w, w_age w, w_address w))
        (filter (\<lambda>w. w_health_id w = lit ''W1001'') (workers db_twice))
       = [(lit ''Asha Kumari'', Some 31, Some (lit ''Gaya''))]"
    by auto
  from c1 c2 b1 b2 a b show ?thesis by blast
qed

end
